theory Spec2Isabelle
  imports Complex_Main
begin

section \<open>CoachAI: embedding adapter, retrieval, prompt assembly and interaction recording\<close>

text \<open>
  A shallow embedding of \<^verbatim>\<open>coachai/clients/cohere_client.py\<close> and
  \<^verbatim>\<open>coachai/services/coach_service.py\<close>. Python exceptions are values of the
  type \<open>error\<close> (\<open>Inl\<close> of a sum), \<open>None\<close> is \<open>None\<close> of an option, and the
  collaborators whose code is outside these two files (the Cohere SDK, the Supabase
  client, the knowledge repository, the model handler) are parameters that say, call by
  call, whether the collaborator returned or raised.
\<close>

subsection \<open>Python values\<close>

text \<open>
  Every \<^verbatim>\<open>raise\<close> site of the two files and every collaborator that may raise has a
  constructor. Both \<^verbatim>\<open>raise RuntimeError(...)\<close> of \<^verbatim>\<open>CohereClient.embed\<close> are
  Python \<^verbatim>\<open>RuntimeError\<close>s told apart by their message: the first is
  \<open>ProviderUnavailable\<close>, the second \<open>DimensionMismatch\<close> with the width found and the
  width expected, as its message prints them.
\<close>

datatype error =
    ProviderUnavailable
  | DimensionMismatch nat int
  | SdkError
  | IndexError
  | TypeError
  | ValueError
  | EmbeddingError
  | StoreError
  | ModelError
  | InvalidTopK

text \<open>
  A Python float: a finite one is given by its exact value, which is a rational number;
  the others are the negative zero, the two infinities and not-a-number.
\<close>

datatype pyfloat = Finite rat | Neg_zero | Pos_inf | Neg_inf | NaN

text \<open>The components of an embedding vector, by their exact values.\<close>

type_synonym vector = "rat list"

text \<open>Truthiness of a string that may be \<^verbatim>\<open>None\<close>: \<^verbatim>\<open>None\<close> and \<^verbatim>\<open>''\<close> are falsy.\<close>

definition truthy_str :: "string option \<Rightarrow> bool" where
  "truthy_str s = (case s of None \<Rightarrow> False | Some t \<Rightarrow> t \<noteq> [])"

text \<open>\<^verbatim>\<open>x or d\<close> on an integer that may be \<^verbatim>\<open>None\<close>: \<^verbatim>\<open>None\<close> and \<^verbatim>\<open>0\<close> give \<open>d\<close>.\<close>

definition int_or :: "int option \<Rightarrow> int \<Rightarrow> int" where
  "int_or x d = (case x of None \<Rightarrow> d | Some v \<Rightarrow> if v = 0 then d else v)"

text \<open>\<^verbatim>\<open>x or d\<close> on a string that may be \<^verbatim>\<open>None\<close>.\<close>

definition str_or :: "string option \<Rightarrow> string \<Rightarrow> string" where
  "str_or x d = (case x of None \<Rightarrow> d | Some v \<Rightarrow> if v = [] then d else v)"

subsection \<open>Configuration\<close>

text \<open>
  \<^verbatim>\<open>coachai.core.config.Config\<close> is imported, not defined, by the two files; the
  attributes they read are the fields of this record. An attribute that is absent or
  \<^verbatim>\<open>None\<close> is \<open>None\<close>.
\<close>

record config =
  COHERE_API_KEY :: "string option"
  COHERE_MODEL :: "string option"
  PGVECTOR_DIMENSION :: "int option"
  TOP_K :: int
  MIN_PIXELS :: int
  MAX_PIXELS :: int
  SUPABASE_STORAGE_BUCKET :: string
  MODEL_NAME :: string

subsection \<open>The Cohere client (\<^verbatim>\<open>cohere_client.py\<close>)\<close>

text \<open>
  The SDK client object: \<open>embeddings_create\<close> is the newer call
  \<^verbatim>\<open>client.embeddings.create(model=, texts=)\<close> followed by reading
  \<^verbatim>\<open>e.embedding\<close> of every element, \<open>sdk_embed\<close> the older
  \<^verbatim>\<open>client.embed(model=, texts=).embeddings\<close>. \<open>None\<close> is an exception raised
  anywhere in that line.
\<close>

record sdk_client =
  embeddings_create :: "string \<Rightarrow> string list \<Rightarrow> vector list option"
  sdk_embed :: "string \<Rightarrow> string list \<Rightarrow> vector list option"

record cohere_client =
  api_key :: "string option"
  model :: string
  client :: "sdk_client option"

text \<open>
  A character is a code point below 256. \<^verbatim>\<open>str.isspace\<close> holds of the blank, of
  the tab, the line feed, the vertical tab, the form feed and the carriage return, of the
  four separators \<^verbatim>\<open>0x1C\<close> to \<^verbatim>\<open>0x1F\<close>, of the next-line character \<^verbatim>\<open>0x85\<close> and
  of the no-break space \<^verbatim>\<open>0xA0\<close>; \<^verbatim>\<open>str.strip()\<close> removes these at both ends.
\<close>

definition is_space :: "char \<Rightarrow> bool" where
  "is_space c =
     (c \<in> set [CHR '' '', CHR 0x09, CHR 0x0A, CHR 0x0B, CHR 0x0C, CHR 0x0D,
                CHR 0x1C, CHR 0x1D, CHR 0x1E, CHR 0x1F, CHR 0x85, CHR 0xA0])"

definition strip :: "string \<Rightarrow> string" where
  "strip s = rev (dropWhile is_space (rev (dropWhile is_space s)))"

text \<open>
  \<^verbatim>\<open>str.lower()\<close> on one character: the letters \<^verbatim>\<open>A\<close> to \<^verbatim>\<open>Z\<close> and the capital
  letters of Latin-1, \<^verbatim>\<open>0xC0\<close> to \<^verbatim>\<open>0xDE\<close> without the multiplication sign \<^verbatim>\<open>0xD7\<close>,
  move up by 32; every other character below 256 stays.
\<close>

definition lower_char :: "char \<Rightarrow> char" where
  "lower_char c =
     (let n = (of_char c :: nat)
      in if (65 \<le> n \<and> n \<le> 90) \<or> (192 \<le> n \<and> n \<le> 222 \<and> n \<noteq> 215) then char_of (n + 32)
         else c)"

definition lower :: "string \<Rightarrow> string" where
  "lower s = map lower_char s"

text \<open>
  \<^verbatim>\<open>CohereClient.__init__\<close>. \<open>cohere\<close> is the imported module (\<open>None\<close> when the
  import failed), given by its constructor \<^verbatim>\<open>cohere.Client\<close>, which returns a client
  or raises (\<open>None\<close>).
\<close>

definition CohereClient_init ::
  "config \<Rightarrow> (string \<Rightarrow> sdk_client option) option \<Rightarrow> string option \<Rightarrow> string option
     \<Rightarrow> cohere_client" where
  "CohereClient_init cfg cohere key mdl =
     (let k = (if truthy_str key then key else COHERE_API_KEY cfg);
          cfg_model = (case COHERE_MODEL cfg of
                         None \<Rightarrow> None
                       | Some m \<Rightarrow>
                           if lower (strip m) \<in> set [''small'', ''medium'', ''large'']
                           then Some '''' else Some m);
          m = str_or mdl (str_or cfg_model ''embed-english-light-v3.0'')
      in \<lparr> api_key = k, model = m,
           client = (case cohere of
                       None \<Rightarrow> None
                     | Some mk \<Rightarrow> (case k of
                                     None \<Rightarrow> None
                                   | Some ks \<Rightarrow> if ks = [] then None else mk ks)) \<rparr>)"

definition is_available :: "cohere_client \<Rightarrow> bool" where
  "is_available c = (client c \<noteq> None)"

text \<open>The \<^verbatim>\<open>try\<close>/\<^verbatim>\<open>except\<close> over the two SDK shapes: the newer call first, the older
  one when it raises; an exception of the older call is not caught.\<close>

definition provider_vectors :: "sdk_client \<Rightarrow> string \<Rightarrow> string list \<Rightarrow> error + vector list" where
  "provider_vectors sdk m texts =
     (case embeddings_create sdk m texts of
        Some vs \<Rightarrow> Inr vs
      | None \<Rightarrow> (case sdk_embed sdk m texts of
                   Some vs \<Rightarrow> Inr vs
                 | None \<Rightarrow> Inl SdkError))"

text \<open>\<^verbatim>\<open>dim = getattr(Config, 'PGVECTOR_DIMENSION', 384) or 384\<close>.\<close>

definition target_dimension :: "config \<Rightarrow> int" where
  "target_dimension cfg = int_or (PGVECTOR_DIMENSION cfg) 384"

text \<open>\<^verbatim>\<open>CohereClient.embed\<close>.\<close>

definition embed :: "config \<Rightarrow> cohere_client \<Rightarrow> string list \<Rightarrow> error + vector list" where
  "embed cfg c texts =
     (case client c of
        None \<Rightarrow> Inl ProviderUnavailable
      | Some sdk \<Rightarrow>
          (case provider_vectors sdk (model c) texts of
             Inl e \<Rightarrow> Inl e
           | Inr vectors \<Rightarrow>
               (let dim = target_dimension cfg in
                case vectors of
                  [] \<Rightarrow> Inr vectors
                | v # _ \<Rightarrow>
                    if int (length v) \<noteq> dim then Inl (DimensionMismatch (length v) dim)
                    else Inr vectors)))"

subsection \<open>Knowledge entries and the collaborators of the service\<close>

text \<open>
  A retrieved entry is a Python dict; the service reads four keys of it. A key is absent,
  holds \<^verbatim>\<open>None\<close>, or holds a value: for \<^verbatim>\<open>'id'\<close>, \<^verbatim>\<open>'topic'\<close> and
  \<^verbatim>\<open>'content'\<close> a text (an id that is a number is kept as the text \<^verbatim>\<open>str()\<close> gives for
  it).
\<close>

datatype dict_text = Absent | Holds_None | Text string

text \<open>
  What \<^verbatim>\<open>float(sim)\<close> does with the value under \<^verbatim>\<open>'similarity'\<close>: it gives a float, or
  it raises (\<^verbatim>\<open>ValueError\<close> for a text that is no number, \<^verbatim>\<open>TypeError\<close> for a value
  of another kind).
\<close>

datatype sim_val = Float pyfloat | Not_float error

text \<open>\<open>similarity\<close> is \<^verbatim>\<open>l.get('similarity', None)\<close>: \<open>None\<close> when the key is absent or
  holds \<^verbatim>\<open>None\<close>.\<close>

record entry =
  entry_id :: dict_text
  topic :: dict_text
  content :: dict_text
  similarity :: "sim_val option"

text \<open>\<^verbatim>\<open>d.get(key)\<close>: \<^verbatim>\<open>None\<close> for an absent key.\<close>

definition dict_get :: "dict_text \<Rightarrow> string option" where
  "dict_get v = (case v of Absent \<Rightarrow> None | Holds_None \<Rightarrow> None | Text t \<Rightarrow> Some t)"

text \<open>\<^verbatim>\<open>d.get(key, default)\<close>: the default for an absent key only.\<close>

definition dict_get_or :: "dict_text \<Rightarrow> string \<Rightarrow> string option" where
  "dict_get_or v d = (case v of Absent \<Rightarrow> Some d | Holds_None \<Rightarrow> None | Text t \<Rightarrow> Some t)"

type_synonym bytes = string
type_synonym image = string

datatype content_part =
    Text_part string
  | Image_part image int int

datatype message_content =
    Plain string
  | Parts "content_part list"

record message =
  role :: string
  msg_content :: message_content

text \<open>
  \<^verbatim>\<open>ModelHandler.generate(messages, max_new_tokens=, temperature=)\<close>: it returns the
  generated text or raises. The two keyword arguments are \<open>None\<close> when not passed.
\<close>

record model_handler =
  generate :: "message list \<Rightarrow> nat option \<Rightarrow> rat option \<Rightarrow> error + string"

text \<open>The result of a \<^verbatim>\<open>table_insert\<close>: \<open>No_data\<close> when \<^verbatim>\<open>res\<close> or \<^verbatim>\<open>res.data\<close> is falsy,
  otherwise \<^verbatim>\<open>res.data[0].get('id')\<close>.\<close>

datatype insert_res = No_data | Data "string option"

text \<open>The result of \<^verbatim>\<open>upload_attachment\<close>: \<open>Upload_none\<close> when it returns a falsy value,
  otherwise \<^verbatim>\<open>att.get('id')\<close> of the dict it returns.\<close>

datatype upload_res = Upload_none | Upload_att "string option"

text \<open>
  \<^verbatim>\<open>KnowledgeRepository\<close> and the Supabase client it hands out are imported, not
  defined, by the service. Each field says what one of their methods returns or raises
  for given arguments: \<open>search\<close> is \<^verbatim>\<open>search(query, top_k=)\<close>, \<open>all_lessons\<close> is
  \<^verbatim>\<open>all()\<close>, \<open>embed_texts\<close> is \<^verbatim>\<open>embed_texts(texts)\<close>, \<open>get_supabase\<close> is
  \<^verbatim>\<open>_get_supabase()\<close> (\<open>Inr False\<close> for a falsy result, \<open>Inr True\<close> for a client),
  \<open>upload_result\<close> is \<^verbatim>\<open>upload_attachment\<close> by the object path, \<open>insert_result\<close> is
  \<^verbatim>\<open>table_insert\<close> by the table name, \<open>update_error\<close> is the exception of
  \<^verbatim>\<open>table_update('attachments', ..., 'id', aid)\<close> by \<open>aid\<close> if it raises, and
  \<open>add_embedding_error\<close> the exception of \<^verbatim>\<open>add_embedding_for_source\<close> if it
  raises.
\<close>

record knowledge_repo =
  search :: "string \<Rightarrow> int \<Rightarrow> error + entry list"
  all_lessons :: "entry list"
  embed_texts :: "string list \<Rightarrow> error + vector list"
  get_supabase :: "error + bool"
  upload_result :: "string \<Rightarrow> error + upload_res"
  insert_result :: "string \<Rightarrow> error + insert_res"
  update_error :: "string \<Rightarrow> error option"
  add_embedding_error :: "error option"

record coach_service =
  config :: config
  knowledge_repo :: knowledge_repo
  model_handler :: model_handler
  current_user_id :: "string option"

text \<open>\<^verbatim>\<open>CoachService.set_user_context\<close>, on the service's own field.\<close>

definition set_user_context :: "coach_service \<Rightarrow> string option \<Rightarrow> coach_service" where
  "set_user_context svc user_id =
     svc\<lparr>current_user_id := (if truthy_str user_id then user_id else None)\<rparr>"

subsection \<open>Retrieval\<close>

text \<open>\<^verbatim>\<open>CoachService.find_relevant\<close>: \<^verbatim>\<open>top_k or self.config.TOP_K\<close> is handed to the
  repository's search, and what the search returns or raises is returned or raised.\<close>

definition find_relevant :: "coach_service \<Rightarrow> string \<Rightarrow> int option \<Rightarrow> error + entry list" where
  "find_relevant svc query top_k =
     search (knowledge_repo svc) query (int_or top_k (TOP_K (config svc)))"

text \<open>The \<^verbatim>\<open>try: relevant = self.find_relevant(q, top_k=self.config.TOP_K)\<close>
  \<^verbatim>\<open>except Exception: relevant = []\<close> of the three generating methods.\<close>

definition find_relevant_or_empty :: "coach_service \<Rightarrow> string \<Rightarrow> entry list" where
  "find_relevant_or_empty svc query =
     (case find_relevant svc query (Some (TOP_K (config svc))) of
        Inl e \<Rightarrow> []
      | Inr r \<Rightarrow> r)"

record knowledge_entry =
  ke_id :: string
  ke_topic :: string
  ke_content :: string
  ke_embedding :: vector

definition to_entry :: "(vector \<Rightarrow> vector \<Rightarrow> rat) \<Rightarrow> vector \<Rightarrow> knowledge_entry \<Rightarrow> entry" where
  "to_entry sim v ke =
     \<lparr> entry_id = Text (ke_id ke), topic = Text (ke_topic ke), content = Text (ke_content ke),
       similarity = Some (Float (Finite (sim v (ke_embedding ke)))) \<rparr>"

text \<open>
  Modelled from the spec: the Knowledge Store Interface's
  \<^verbatim>\<open>search(vector, top_k) -> ranked entries\<close>, which is not in the source files. It
  ranks the stored entries by similarity to the query vector, "descending by similarity,
  ties broken by store-native order", and returns the first \<open>k\<close>. The similarity
  operator \<open>sim\<close> is the store's.
\<close>

definition store_search ::
  "(vector \<Rightarrow> vector \<Rightarrow> rat) \<Rightarrow> knowledge_entry list \<Rightarrow> vector \<Rightarrow> nat \<Rightarrow> entry list" where
  "store_search sim kes v k =
     map (to_entry sim v) (take k (sort_key (\<lambda>ke. - sim v (ke_embedding ke)) kes))"

text \<open>
  Modelled from the spec: \<^verbatim>\<open>KnowledgeRepository.search(query, top_k)\<close>, which is not in
  the source files. The spec's Retrieval Orchestrator, without the defaulting of
  \<open>top_k\<close> that \<open>find_relevant\<close> does: \<open>top_k\<close> "must be \<open>\<ge> 1\<close>" and a zero or negative
  one "is rejected (fails fast)"; it "embeds the query via 4.1; on embedding failure,
  returns an empty sequence rather than propagating"; it "delegates similarity ranking to
  the Knowledge Store Interface". \<open>embedder\<close> is the embedding provider adapter of 4.1.
\<close>

definition KnowledgeRepository_search ::
  "(string list \<Rightarrow> error + vector list) \<Rightarrow> (vector \<Rightarrow> vector \<Rightarrow> rat) \<Rightarrow> knowledge_entry list
     \<Rightarrow> string \<Rightarrow> int \<Rightarrow> error + entry list" where
  "KnowledgeRepository_search embedder sim kes query top_k =
     (if top_k < 1 then Inl InvalidTopK
      else case embedder [query] of
             Inl e \<Rightarrow> Inr []
           | Inr vs \<Rightarrow> (case vs of
                          [] \<Rightarrow> Inr []
                        | v # _ \<Rightarrow> Inr (store_search sim kes v (nat top_k))))"

subsection \<open>Text formatting\<close>

definition digit_char :: "nat \<Rightarrow> char" where
  "digit_char d = ''0123456789'' ! d"

text \<open>\<^verbatim>\<open>str(n)\<close> of a natural number.\<close>

function show_nat :: "nat \<Rightarrow> string" where
  "show_nat n = (if n < 10 then [digit_char n] else show_nat (n div 10) @ [digit_char (n mod 10)])"
  by pat_completeness auto
termination
  by (relation "measure (\<lambda>n. n)") auto

declare show_nat.simps [simp del]

definition round_half_even :: "rat \<Rightarrow> int" where
  "round_half_even x =
     (let f = \<lfloor>x\<rfloor>; d = x - of_int f
      in if d < 1 / 2 then f else if 1 / 2 < d then f + 1 else if even f then f else f + 1)"

definition pad4 :: "nat \<Rightarrow> string" where
  "pad4 m = replicate (4 - length (show_nat m)) (CHR ''0'') @ show_nat m"

text \<open>
  \<^verbatim>\<open>f"{x:.4f}"\<close> of a finite float \<open>x\<close>, given by its exact value: the sign, the
  integer part, a point and four digits, rounded to the nearest ten-thousandth, a tie to
  the even one.
\<close>

definition fmt4 :: "rat \<Rightarrow> string" where
  "fmt4 x =
     (let n = nat (round_half_even (\<bar>x\<bar> * 10000))
      in (if x < 0 then ''-'' else []) @ show_nat (n div 10000) @ ''.'' @ pad4 (n mod 10000))"

text \<open>\<^verbatim>\<open>f"{x:.4f}"\<close> of any float.\<close>

definition format_4f :: "pyfloat \<Rightarrow> string" where
  "format_4f f =
     (case f of
        Finite x \<Rightarrow> fmt4 x
      | Neg_zero \<Rightarrow> ''-0.0000''
      | Pos_inf \<Rightarrow> ''inf''
      | Neg_inf \<Rightarrow> ''-inf''
      | NaN \<Rightarrow> ''nan'')"

text \<open>What \<^verbatim>\<open>str()\<close> and an f-string print for a text that may be \<^verbatim>\<open>None\<close>.\<close>

definition str_of :: "string option \<Rightarrow> string" where
  "str_of x = (case x of None \<Rightarrow> ''None'' | Some s \<Rightarrow> s)"

text \<open>\<^verbatim>\<open>x[:n]\<close>: \<^verbatim>\<open>None\<close> cannot be sliced.\<close>

definition slice_to :: "nat \<Rightarrow> string option \<Rightarrow> error + string" where
  "slice_to n x = (case x of None \<Rightarrow> Inl TypeError | Some s \<Rightarrow> Inr (take n s))"

text \<open>
  A list comprehension, or a loop that appends, over \<open>xs\<close> whose element expression
  \<open>f\<close> may raise: the first exception ends it.
\<close>

fun collect :: "('a \<Rightarrow> error + 'b) \<Rightarrow> 'a list \<Rightarrow> error + 'b list" where
  "collect f [] = Inr []"
| "collect f (x # xs) =
     (case f x of
        Inl e \<Rightarrow> Inl e
      | Inr y \<Rightarrow> (case collect f xs of Inl e \<Rightarrow> Inl e | Inr ys \<Rightarrow> Inr (y # ys)))"

text \<open>\<^verbatim>\<open>sep.join(xs)\<close>.\<close>

fun join :: "string \<Rightarrow> string list \<Rightarrow> string" where
  "join sep [] = []"
| "join sep [x] = x"
| "join sep (x # y # ys) = x @ sep @ join sep (y # ys)"

definition nl :: string where
  "nl = [CHR 0x0A]"

subsection \<open>Prompt assembly (\<^verbatim>\<open>generate_explanation\<close>)\<close>

text \<open>\<^verbatim>\<open>f"{float(sim):.4f}" if sim is not None else "N/A"\<close>.\<close>

definition sim_str :: "sim_val option \<Rightarrow> error + string" where
  "sim_str sim =
     (case sim of
        None \<Rightarrow> Inr ''N/A''
      | Some (Float f) \<Rightarrow> Inr (format_4f f)
      | Some (Not_float e) \<Rightarrow> Inl e)"

text \<open>One round of the loop that fills \<^verbatim>\<open>retrieved_lines\<close>: the element it appends, or
  the exception of \<^verbatim>\<open>float(sim)\<close>.\<close>

definition retrieved_line :: "entry \<Rightarrow> error + string" where
  "retrieved_line l =
     (let lid = dict_get (entry_id l);
          tpc = dict_get_or (topic l) [];
          content_text = dict_get_or (content l) []
      in case sim_str (similarity l) of
           Inl e \<Rightarrow> Inl e
         | Inr s \<Rightarrow>
             Inr (''ID: '' @ str_of lid @ nl @ ''Topic: '' @ str_of tpc @ nl
                    @ ''Similarity: '' @ s @ nl @ str_of content_text @ nl @ ''---''))"

definition retrieved_section :: "entry list \<Rightarrow> error + string" where
  "retrieved_section relevant =
     (if relevant \<noteq> []
      then (case collect retrieved_line relevant of
              Inl e \<Rightarrow> Inl e
            | Inr retrieved_lines \<Rightarrow> Inr (''Retrieved documents:'' @ nl @ join nl retrieved_lines))
      else Inr ''Retrieved documents: none available.'')"

definition system_prompt :: string where
  "system_prompt = ''You are an expert learning coach with advanced visual analysis capabilities. Use the retrieved documents to ground answers and cite document IDs when relevant.''"

text \<open>\<^verbatim>\<open>user_prompt\<close> for a retrieved section that was built.\<close>

definition user_prompt_of :: "string \<Rightarrow> string \<Rightarrow> string" where
  "user_prompt_of section query =
     section @ nl @ nl @ ''Question: '' @ query @ nl @ nl
       @ ''Provide a clear, educational explanation that directly uses the retrieved documents.''"

definition user_prompt :: "entry list \<Rightarrow> string \<Rightarrow> error + string" where
  "user_prompt relevant query =
     (case retrieved_section relevant of
        Inl e \<Rightarrow> Inl e
      | Inr section \<Rightarrow> Inr (user_prompt_of section query))"

text \<open>\<^verbatim>\<open>content\<close> and \<^verbatim>\<open>messages\<close> for a user prompt that was built.\<close>

definition messages_of :: "config \<Rightarrow> string \<Rightarrow> image option \<Rightarrow> message list" where
  "messages_of cfg prompt img =
     (let content0 = (case img of
                        None \<Rightarrow> []
                      | Some i \<Rightarrow> [Image_part i (MIN_PIXELS cfg) (MAX_PIXELS cfg)]);
          content1 = content0 @ [Text_part prompt]
      in [\<lparr> role = ''system'', msg_content = Plain system_prompt \<rparr>,
          \<lparr> role = ''user'', msg_content = Parts content1 \<rparr>])"

text \<open>Lines 39 to 69 of \<^verbatim>\<open>generate_explanation\<close>: the messages built from the entries in
  hand, the query and the image, or the exception raised on the way.\<close>

definition explanation_messages ::
  "config \<Rightarrow> entry list \<Rightarrow> string \<Rightarrow> image option \<Rightarrow> error + message list" where
  "explanation_messages cfg relevant query img =
     (case user_prompt relevant query of
        Inl e \<Rightarrow> Inl e
      | Inr prompt \<Rightarrow> Inr (messages_of cfg prompt img))"

text \<open>Lines 33 to 37: retrieval is run again when no entries were handed in.\<close>

definition explanation_entries :: "coach_service \<Rightarrow> string \<Rightarrow> entry list \<Rightarrow> entry list" where
  "explanation_entries svc query relevant =
     (if relevant = [] then find_relevant_or_empty svc query else relevant)"

definition explanation_prompt ::
  "coach_service \<Rightarrow> string \<Rightarrow> entry list \<Rightarrow> image option \<Rightarrow> error + message list" where
  "explanation_prompt svc query relevant img =
     explanation_messages (config svc) (explanation_entries svc query relevant) query img"

text \<open>\<^verbatim>\<open>CoachService.generate_explanation\<close>.\<close>

definition generate_explanation ::
  "coach_service \<Rightarrow> string \<Rightarrow> entry list \<Rightarrow> image option \<Rightarrow> error + string" where
  "generate_explanation svc query relevant img =
     (case explanation_prompt svc query relevant img of
        Inl e \<Rightarrow> Inl e
      | Inr messages \<Rightarrow> generate (model_handler svc) messages None None)"

text \<open>The texts of the user turn of a message list.\<close>

fun text_parts :: "content_part list \<Rightarrow> string list" where
  "text_parts [] = []"
| "text_parts (Text_part t # ps) = t # text_parts ps"
| "text_parts (Image_part i lo hi # ps) = text_parts ps"

definition user_turn_texts :: "message list \<Rightarrow> string list" where
  "user_turn_texts msgs =
     concat (map (\<lambda>m. case msg_content m of Plain t \<Rightarrow> [t] | Parts ps \<Rightarrow> text_parts ps)
                 (filter (\<lambda>m. role m = ''user'') msgs))"

text \<open>\<^verbatim>\<open>needle in hay\<close> on strings.\<close>

fun is_prefix :: "string \<Rightarrow> string \<Rightarrow> bool" where
  "is_prefix [] ys = True"
| "is_prefix (x # xs) [] = False"
| "is_prefix (x # xs) (y # ys) = (x = y \<and> is_prefix xs ys)"

fun contains :: "string \<Rightarrow> string \<Rightarrow> bool" where
  "contains [] needle = (needle = [])"
| "contains (h # hay) needle = (is_prefix needle (h # hay) \<or> contains hay needle)"

subsection \<open>The store\<close>

text \<open>The rows the service writes, with the keys of the dicts it builds.\<close>

record att_metadata =
  md_source :: string
  md_query_id :: string
  md_user_id :: string
  md_index :: nat
  md_content_type :: "string option"

record attachment =
  att_id :: string
  owner_user_id :: string
  storage_path :: string
  content_type :: string
  query_id :: "string option"
  metadata :: "att_metadata option"

record user_query =
  uq_id :: "string option"
  uq_user_id :: string
  text_query :: string
  image_attachment_ids :: "string list"

record generated_question =
  gq_id :: "string option"
  lesson_id :: "string option"
  gq_query_id :: "string option"
  author_model :: string
  question_text :: string

record answer_record =
  question_id :: "string option"
  user_id :: "string option"
  user_answer :: string
  model_answer :: string
  grade :: "string option"
  feedback :: "string option"

record embedding_record =
  source_table :: string
  source_id :: string
  emb_vector :: vector
  emb_source :: string

text \<open>
  The calls the service makes to the store and to the repository's log, in the order it
  makes them. \<open>Log_update_failure aid qid e\<close> is the call
  \<^verbatim>\<open>_log(f'store_user_query: failed to update attachment id={aid} query_id={qid}: {repr(e)}')\<close>.
\<close>

datatype store_call =
    Upload_attachment string string string bytes string
  | Insert_user_query user_query
  | Update_attachment string string att_metadata
  | Log_update_failure string string error
  | Add_embedding string string vector
  | Insert_generated_question generated_question
  | Insert_answer answer_record

record store =
  attachments :: "attachment list"
  user_queries :: "user_query list"
  generated_questions :: "generated_question list"
  answers :: "answer_record list"
  embeddings :: "embedding_record list"
  calls :: "store_call list"

definition logged :: "store_call \<Rightarrow> store \<Rightarrow> store" where
  "logged c s = s\<lparr>calls := calls s @ [c]\<rparr>"

text \<open>
  Modelled from the spec: \<^verbatim>\<open>KnowledgeRepository.upload_attachment\<close>, which is not in
  the source files. "Upload each attachment first (creating Attachment rows with
  \<open>query_id = null\<close>)"; the metadata is "nullable at creation". A row is created when
  the call returns an attachment with an id.
\<close>

definition upload_attachment ::
  "knowledge_repo \<Rightarrow> store \<Rightarrow> string \<Rightarrow> string \<Rightarrow> string \<Rightarrow> bytes \<Rightarrow> string
     \<Rightarrow> (error + upload_res) \<times> store" where
  "upload_attachment repo s uid bucket path b ct =
     (let s1 = logged (Upload_attachment uid bucket path b ct) s
      in case upload_result repo path of
           Inl e \<Rightarrow> (Inl e, s1)
         | Inr Upload_none \<Rightarrow> (Inr Upload_none, s1)
         | Inr (Upload_att None) \<Rightarrow> (Inr (Upload_att None), s1)
         | Inr (Upload_att (Some aid)) \<Rightarrow>
             (Inr (Upload_att (Some aid)),
              s1\<lparr>attachments := attachments s1 @
                    [\<lparr> att_id = aid, owner_user_id = uid, storage_path = path,
                       content_type = ct, query_id = None, metadata = None \<rparr>]\<rparr>))"

text \<open>
  Modelled from the spec: the store's \<^verbatim>\<open>insert(table, record) -> record_with_id\<close>
  behind \<^verbatim>\<open>table_insert\<close>, which is not in the source files, for the three tables the
  service inserts into. The row is in the table when the call returns it.
\<close>

definition table_insert_user_query ::
  "knowledge_repo \<Rightarrow> store \<Rightarrow> user_query \<Rightarrow> (error + insert_res) \<times> store" where
  "table_insert_user_query repo s r =
     (let s1 = logged (Insert_user_query r) s
      in case insert_result repo ''user_queries'' of
           Inl e \<Rightarrow> (Inl e, s1)
         | Inr No_data \<Rightarrow> (Inr No_data, s1)
         | Inr (Data i) \<Rightarrow> (Inr (Data i), s1\<lparr>user_queries := user_queries s1 @ [r\<lparr>uq_id := i\<rparr>]\<rparr>))"

definition table_insert_generated_question ::
  "knowledge_repo \<Rightarrow> store \<Rightarrow> generated_question \<Rightarrow> (error + insert_res) \<times> store" where
  "table_insert_generated_question repo s r =
     (let s1 = logged (Insert_generated_question r) s
      in case insert_result repo ''generated_questions'' of
           Inl e \<Rightarrow> (Inl e, s1)
         | Inr No_data \<Rightarrow> (Inr No_data, s1)
         | Inr (Data i) \<Rightarrow>
             (Inr (Data i), s1\<lparr>generated_questions := generated_questions s1 @ [r\<lparr>gq_id := i\<rparr>]\<rparr>))"

definition table_insert_answer ::
  "knowledge_repo \<Rightarrow> store \<Rightarrow> answer_record \<Rightarrow> (error + insert_res) \<times> store" where
  "table_insert_answer repo s r =
     (let s1 = logged (Insert_answer r) s
      in case insert_result repo ''answers'' of
           Inl e \<Rightarrow> (Inl e, s1)
         | Inr No_data \<Rightarrow> (Inr No_data, s1)
         | Inr (Data i) \<Rightarrow> (Inr (Data i), s1\<lparr>answers := answers s1 @ [r]\<rparr>))"

text \<open>
  Modelled from the spec: the store's \<^verbatim>\<open>update(table, fields, key_column, key_value)\<close>
  behind \<^verbatim>\<open>table_update('attachments', {'query_id': qid, 'metadata': md}, 'id', aid)\<close>,
  which is not in the source files: the two fields are set on the rows whose id is \<open>aid\<close>.
\<close>

definition table_update_attachment ::
  "knowledge_repo \<Rightarrow> store \<Rightarrow> string \<Rightarrow> att_metadata \<Rightarrow> string \<Rightarrow> (error + unit) \<times> store" where
  "table_update_attachment repo s qid md aid =
     (let s1 = logged (Update_attachment aid qid md) s
      in case update_error repo aid of
           Some e \<Rightarrow> (Inl e, s1)
         | None \<Rightarrow>
             (Inr (),
              s1\<lparr>attachments :=
                    map (\<lambda>r. if att_id r = aid then r\<lparr>query_id := Some qid, metadata := Some md\<rparr>
                              else r)
                        (attachments s1)\<rparr>))"

text \<open>
  Modelled from the spec: \<^verbatim>\<open>KnowledgeRepository.add_embedding_for_source\<close>, which is
  not in the source files: it "writes a derived embedding-index row keyed to
  \<open>('user_queries', query_id)\<close>".
\<close>

definition add_embedding_for_source ::
  "knowledge_repo \<Rightarrow> store \<Rightarrow> string \<Rightarrow> string \<Rightarrow> vector \<Rightarrow> string \<Rightarrow> (error + unit) \<times> store" where
  "add_embedding_for_source repo s tbl sid emb src =
     (let s1 = logged (Add_embedding tbl sid emb) s
      in case add_embedding_error repo of
           Some e \<Rightarrow> (Inl e, s1)
         | None \<Rightarrow>
             (Inr (),
              s1\<lparr>embeddings := embeddings s1 @
                    [\<lparr> source_table = tbl, source_id = sid, emb_vector = emb, emb_source = src \<rparr>]\<rparr>))"

subsection \<open>Recording (\<^verbatim>\<open>store_user_query\<close>, \<^verbatim>\<open>store_generated_question\<close>)\<close>

text \<open>\<^verbatim>\<open>content_types[i] if content_types and i < len(content_types)\<close>; \<open>None\<close> is the
  \<^verbatim>\<open>else\<close> branch.\<close>

definition content_type_at :: "string list option \<Rightarrow> nat \<Rightarrow> string option" where
  "content_type_at content_types i =
     (case content_types of
        None \<Rightarrow> None
      | Some cts \<Rightarrow> if cts \<noteq> [] \<and> i < length cts then Some (cts ! i) else None)"

text \<open>\<^verbatim>\<open>if att and att.get('id'): attachment_ids.append(att.get('id'))\<close>.\<close>

definition append_id :: "upload_res \<Rightarrow> string list \<Rightarrow> string list" where
  "append_id att attachment_ids =
     (case att of
        Upload_none \<Rightarrow> attachment_ids
      | Upload_att None \<Rightarrow> attachment_ids
      | Upload_att (Some aid) \<Rightarrow> if aid \<noteq> [] then attachment_ids @ [aid] else attachment_ids)"

text \<open>\<^verbatim>\<open>f"attachments/{uuid.uuid4().hex}_{i}.png"\<close>; \<open>uuid4_hex i\<close> is what
  \<^verbatim>\<open>uuid.uuid4().hex\<close> gives in round \<open>i\<close> of the loop.\<close>

definition attachment_path :: "(nat \<Rightarrow> string) \<Rightarrow> nat \<Rightarrow> string" where
  "attachment_path uuid4_hex i = ''attachments/'' @ uuid4_hex i @ ''_'' @ show_nat i @ ''.png''"

text \<open>The \<^verbatim>\<open>content_type=\<close> argument of the upload.\<close>

definition upload_content_type :: "string list option \<Rightarrow> nat \<Rightarrow> string" where
  "upload_content_type content_types i =
     (case content_type_at content_types i of None \<Rightarrow> ''image/png'' | Some c \<Rightarrow> c)"

text \<open>The dict \<^verbatim>\<open>md\<close> of the back-fill.\<close>

definition backfill_metadata ::
  "string \<Rightarrow> string \<Rightarrow> string list option \<Rightarrow> nat \<Rightarrow> att_metadata" where
  "backfill_metadata qid uid content_types idx =
     \<lparr> md_source = ''user_query'', md_query_id = qid, md_user_id = uid, md_index = idx,
       md_content_type = content_type_at content_types idx \<rparr>"

text \<open>
  The loop \<^verbatim>\<open>for i, b in enumerate(image_bytes_list)\<close>, from index \<open>i\<close> on. An
  exception of \<^verbatim>\<open>upload_attachment\<close> leaves the loop.
\<close>

fun upload_loop ::
  "config \<Rightarrow> knowledge_repo \<Rightarrow> (nat \<Rightarrow> string) \<Rightarrow> string \<Rightarrow> string list option \<Rightarrow> nat
     \<Rightarrow> bytes list \<Rightarrow> string list \<Rightarrow> store \<Rightarrow> (error + string list) \<times> store" where
  "upload_loop cfg repo uuid4_hex uid content_types i [] attachment_ids s = (Inr attachment_ids, s)"
| "upload_loop cfg repo uuid4_hex uid content_types i (b # bs) attachment_ids s =
     (let bucket = SUPABASE_STORAGE_BUCKET cfg;
          path = attachment_path uuid4_hex i
      in case upload_attachment repo s uid bucket path b
                (upload_content_type content_types i) of
           (Inl e, s1) \<Rightarrow> (Inl e, s1)
         | (Inr att, s1) \<Rightarrow>
             upload_loop cfg repo uuid4_hex uid content_types (Suc i) bs
               (append_id att attachment_ids) s1)"

text \<open>
  The loop \<^verbatim>\<open>for idx, aid in enumerate(attachment_ids)\<close>, from index \<open>idx\<close> on. An
  exception of \<^verbatim>\<open>table_update\<close> is caught inside the loop and handed to \<^verbatim>\<open>_log\<close>,
  whose own exception, if any, is caught as well; the loop goes on.
\<close>

fun backfill_loop ::
  "knowledge_repo \<Rightarrow> string \<Rightarrow> string \<Rightarrow> string list option \<Rightarrow> nat \<Rightarrow> string list \<Rightarrow> store
     \<Rightarrow> store" where
  "backfill_loop repo qid uid content_types idx [] s = s"
| "backfill_loop repo qid uid content_types idx (aid # aids) s =
     (let md = backfill_metadata qid uid content_types idx
      in case table_update_attachment repo s qid md aid of
           (Inl e, s1) \<Rightarrow>
             backfill_loop repo qid uid content_types (Suc idx) aids
               (logged (Log_update_failure aid qid e) s1)
         | (Inr u, s1) \<Rightarrow> backfill_loop repo qid uid content_types (Suc idx) aids s1)"

text \<open>\<^verbatim>\<open>embed_texts([text_query])[0]\<close>.\<close>

definition first_embedding :: "error + vector list \<Rightarrow> error + vector" where
  "first_embedding r =
     (case r of
        Inl e \<Rightarrow> Inl e
      | Inr vs \<Rightarrow> (case vs of [] \<Rightarrow> Inl IndexError | v # _ \<Rightarrow> Inr v))"

text \<open>The body of the \<^verbatim>\<open>try\<close> of \<^verbatim>\<open>store_user_query\<close>: \<open>Inl\<close> is an exception that
  reaches the \<^verbatim>\<open>except\<close>, with the store as it was left.\<close>

definition store_user_query_body ::
  "coach_service \<Rightarrow> (nat \<Rightarrow> string) \<Rightarrow> store \<Rightarrow> string \<Rightarrow> string \<Rightarrow> bytes list option
     \<Rightarrow> string list option \<Rightarrow> (error + string option) \<times> store" where
  "store_user_query_body svc uuid4_hex s uid text image_bytes_list content_types =
     (let repo = knowledge_repo svc
      in case (case image_bytes_list of
                 None \<Rightarrow> (Inr [], s)
               | Some bl \<Rightarrow> upload_loop (config svc) repo uuid4_hex uid content_types 0 bl [] s) of
           (Inl e, s1) \<Rightarrow> (Inl e, s1)
         | (Inr attachment_ids, s1) \<Rightarrow>
             (case first_embedding (embed_texts repo [text]) of
                Inl e \<Rightarrow> (Inl e, s1)
              | Inr emb \<Rightarrow>
                  (case get_supabase repo of
                     Inl e \<Rightarrow> (Inl e, s1)
                   | Inr sb \<Rightarrow>
                       (case (if sb
                              then (case table_insert_user_query repo s1
                                           \<lparr> uq_id = None, uq_user_id = uid, text_query = text,
                                             image_attachment_ids = attachment_ids \<rparr> of
                                      (Inl e, s2) \<Rightarrow> (Inl e, s2)
                                    | (Inr No_data, s2) \<Rightarrow> (Inr None, s2)
                                    | (Inr (Data i), s2) \<Rightarrow> (Inr i, s2))
                              else (Inr None, s1)) of
                          (Inl e, s2) \<Rightarrow> (Inl e, s2)
                        | (Inr qid, s2) \<Rightarrow>
                            (case qid of
                               None \<Rightarrow> (Inr qid, s2)
                             | Some q \<Rightarrow>
                                 if q = [] then (Inr qid, s2)
                                 else
                                   (let s3 = (if sb \<and> attachment_ids \<noteq> []
                                              then backfill_loop repo q uid content_types 0
                                                     attachment_ids s2
                                              else s2)
                                    in case add_embedding_for_source repo s3 ''user_queries'' q
                                              emb ''user_query'' of
                                         (Inl e, s4) \<Rightarrow> (Inl e, s4)
                                       | (Inr u, s4) \<Rightarrow> (Inr qid, s4)))))))"

text \<open>\<^verbatim>\<open>CoachService.store_user_query\<close>: \<^verbatim>\<open>except Exception: return None\<close> around the
  body.\<close>

definition store_user_query ::
  "coach_service \<Rightarrow> (nat \<Rightarrow> string) \<Rightarrow> store \<Rightarrow> string \<Rightarrow> string \<Rightarrow> bytes list option
     \<Rightarrow> string list option \<Rightarrow> (error + string option) \<times> store" where
  "store_user_query svc uuid4_hex s uid text image_bytes_list content_types =
     (case store_user_query_body svc uuid4_hex s uid text image_bytes_list content_types of
        (Inl e, s1) \<Rightarrow> (Inr None, s1)
      | (Inr qid, s1) \<Rightarrow> (Inr qid, s1))"

text \<open>\<^verbatim>\<open>CoachService.store_generated_question\<close>: nothing in it catches an exception.\<close>

definition store_generated_question ::
  "coach_service \<Rightarrow> store \<Rightarrow> string option \<Rightarrow> string option \<Rightarrow> string \<Rightarrow> string
     \<Rightarrow> (error + string option) \<times> store" where
  "store_generated_question svc s lid qid text author =
     (case get_supabase (knowledge_repo svc) of
        Inl e \<Rightarrow> (Inl e, s)
      | Inr sb \<Rightarrow>
          if \<not> sb then (Inr None, s)
          else (case table_insert_generated_question (knowledge_repo svc) s
                       \<lparr> gq_id = None, lesson_id = lid, gq_query_id = qid, author_model = author,
                         question_text = text \<rparr> of
                  (Inl e, s1) \<Rightarrow> (Inl e, s1)
                | (Inr No_data, s1) \<Rightarrow> (Inr None, s1)
                | (Inr (Data i), s1) \<Rightarrow> (Inr i, s1)))"

subsection \<open>Evaluation and practice questions\<close>

definition text_message :: "string \<Rightarrow> message list" where
  "text_message prompt = [\<lparr> role = ''user'', msg_content = Parts [Text_part prompt] \<rparr>]"

text \<open>One element of the comprehension of line 110: \<^verbatim>\<open>r.get('content','')[:300]\<close>
  raises when the content holds \<^verbatim>\<open>None\<close>.\<close>

definition evaluation_line :: "entry \<Rightarrow> error + string" where
  "evaluation_line r =
     (case slice_to 300 (dict_get_or (content r) []) of
        Inl e \<Rightarrow> Inl e
      | Inr c \<Rightarrow>
          Inr (''ID:'' @ str_of (dict_get (entry_id r)) @ '' Topic:'' @ str_of (dict_get (topic r))
                 @ nl @ c))"

text \<open>Lines 109 to 113: the prompt, or the exception raised while building it.\<close>

definition evaluation_prompt ::
  "entry list \<Rightarrow> string \<Rightarrow> string \<Rightarrow> string \<Rightarrow> error + string" where
  "evaluation_prompt relevant question student_answer correct_concept =
     (if relevant \<noteq> []
      then (case collect evaluation_line relevant of
              Inl e \<Rightarrow> Inl e
            | Inr retrieved_lines \<Rightarrow>
                Inr (''Retrieved documents:'' @ nl @ join nl retrieved_lines @ nl @ nl
                       @ ''Evaluate this student answer in the context of the retrieved documents.''
                       @ nl @ ''Question: '' @ question @ nl @ ''Answer: '' @ student_answer @ nl
                       @ ''Key Concept: '' @ correct_concept @ nl
                       @ ''Provide a score and brief feedback citing any documents used.''))
      else Inr (''Evaluate this student answer.'' @ nl
                  @ ''Question: '' @ question @ nl @ ''Answer: '' @ student_answer @ nl
                  @ ''Key Concept: '' @ correct_concept @ nl
                  @ ''Provide a score and brief feedback.''))"

text \<open>Lines 118 to 131 of \<^verbatim>\<open>evaluate_answer\<close>: the \<^verbatim>\<open>try\<close> that records the answer,
  \<^verbatim>\<open>except Exception: pass\<close>.\<close>

definition record_answer :: "coach_service \<Rightarrow> store \<Rightarrow> string \<Rightarrow> string \<Rightarrow> store" where
  "record_answer svc s student_answer resp =
     (case get_supabase (knowledge_repo svc) of
        Inl e \<Rightarrow> s
      | Inr sb \<Rightarrow>
          if sb \<and> truthy_str (current_user_id svc)
          then snd (table_insert_answer (knowledge_repo svc) s
                      \<lparr> question_id = None, user_id = current_user_id svc,
                        user_answer = student_answer, model_answer = resp, grade = None,
                        feedback = None \<rparr>)
          else s)"

text \<open>Lines 104 to 115: retrieval for \<^verbatim>\<open>question or correct_concept\<close>, the prompt and
  the messages. An exception raised while the prompt is built is outside every
  \<^verbatim>\<open>try\<close>.\<close>

definition evaluation_messages ::
  "coach_service \<Rightarrow> string \<Rightarrow> string \<Rightarrow> string \<Rightarrow> error + message list" where
  "evaluation_messages svc question student_answer correct_concept =
     (case evaluation_prompt
             (find_relevant_or_empty svc (if question \<noteq> [] then question else correct_concept))
             question student_answer correct_concept of
        Inl e \<Rightarrow> Inl e
      | Inr prompt \<Rightarrow> Inr (text_message prompt))"

text \<open>\<^verbatim>\<open>CoachService.evaluate_answer\<close>.\<close>

definition evaluate_answer ::
  "coach_service \<Rightarrow> store \<Rightarrow> string \<Rightarrow> string \<Rightarrow> string \<Rightarrow> (error + string) \<times> store" where
  "evaluate_answer svc s question student_answer correct_concept =
     (case evaluation_messages svc question student_answer correct_concept of
        Inl e \<Rightarrow> (Inl e, s)
      | Inr messages \<Rightarrow>
          (case generate (model_handler svc) messages (Some 512) None of
             Inl e \<Rightarrow> (Inl e, s)
           | Inr resp \<Rightarrow> (Inr resp, record_answer svc s student_answer resp)))"

text \<open>One element of the comprehension of line 80: \<^verbatim>\<open>r.get('content','')[:200]\<close>
  raises when the content holds \<^verbatim>\<open>None\<close>.\<close>

definition practice_line :: "entry \<Rightarrow> error + string" where
  "practice_line r =
     (case slice_to 200 (dict_get_or (content r) []) of
        Inl e \<Rightarrow> Inl e
      | Inr c \<Rightarrow> Inr (''- '' @ str_of (dict_get_or (topic r) []) @ '': '' @ c))"

text \<open>Lines 79 to 83: the prompt, or the exception raised while building it.\<close>

definition practice_prompt :: "entry list \<Rightarrow> string \<Rightarrow> error + string" where
  "practice_prompt relevant tpc =
     (if relevant \<noteq> []
      then (case collect practice_line relevant of
              Inl e \<Rightarrow> Inl e
            | Inr snippets \<Rightarrow>
                Inr (''Using the following materials:'' @ nl @ join nl snippets @ nl @ nl
                       @ ''Create one practice question about '' @ tpc
                       @ ''. Make it challenging but appropriate. Provide only the question.''))
      else Inr (''Create one practice question about '' @ tpc
                  @ ''. Make it challenging but appropriate. Provide only the question.''))"

text \<open>The first cached lesson whose \<^verbatim>\<open>str(l.get('topic', ''))\<close> matches the topic, case
  and outer blanks aside; \<^verbatim>\<open>l.get('id')\<close> of it.\<close>

fun resolve_lesson_id :: "entry list \<Rightarrow> string \<Rightarrow> string option" where
  "resolve_lesson_id [] tpc = None"
| "resolve_lesson_id (l # ls) tpc =
     (if lower (strip (str_of (dict_get_or (topic l) []))) = lower (strip tpc)
      then dict_get (entry_id l)
      else resolve_lesson_id ls tpc)"

text \<open>\<^verbatim>\<open>CoachService.generate_practice_question\<close>: the prompt is built and the model
  called outside every \<^verbatim>\<open>try\<close>; the call of \<^verbatim>\<open>store_generated_question\<close> is inside
  \<^verbatim>\<open>try\<close> ... \<^verbatim>\<open>except Exception: pass\<close>.\<close>

definition generate_practice_question ::
  "coach_service \<Rightarrow> store \<Rightarrow> string \<Rightarrow> (error + string) \<times> store" where
  "generate_practice_question svc s tpc =
     (case practice_prompt (find_relevant_or_empty svc tpc) tpc of
        Inl e \<Rightarrow> (Inl e, s)
      | Inr prompt \<Rightarrow>
          (case generate (model_handler svc) (text_message prompt) (Some 256) (Some (4 / 5)) of
             Inl e \<Rightarrow> (Inl e, s)
           | Inr q \<Rightarrow>
               (Inr q,
                if truthy_str (current_user_id svc)
                then snd (store_generated_question svc s
                            (resolve_lesson_id (all_lessons (knowledge_repo svc)) tpc) None q
                            (MODEL_NAME (config svc)))
                else s)))"

subsection \<open>The controller (\<^verbatim>\<open>coach_controller.py\<close>)\<close>

definition submit_query ::
  "coach_service \<Rightarrow> (nat \<Rightarrow> string) \<Rightarrow> store \<Rightarrow> string \<Rightarrow> string \<Rightarrow> bytes list option
     \<Rightarrow> string list option \<Rightarrow> (error + string option) \<times> store" where
  "submit_query svc uuid4_hex s uid text images content_types =
     store_user_query svc uuid4_hex s uid text images content_types"

definition generate_question ::
  "coach_service \<Rightarrow> store \<Rightarrow> string option \<Rightarrow> string option \<Rightarrow> string \<Rightarrow> string
     \<Rightarrow> (error + string option) \<times> store" where
  "generate_question svc s lid qid text mdl = store_generated_question svc s lid qid text mdl"

definition evaluate ::
  "coach_service \<Rightarrow> store \<Rightarrow> string \<Rightarrow> string \<Rightarrow> string \<Rightarrow> (error + string) \<times> store" where
  "evaluate svc s question student_answer correct_concept =
     evaluate_answer svc s question student_answer correct_concept"

subsection \<open>Terms of the properties\<close>

text \<open>A decimal digit.\<close>

definition is_digit :: "char \<Rightarrow> bool" where
  "is_digit c = (c \<in> set ''0123456789'')"

text \<open>An optional minus sign, one or more digits, a point, and exactly four digits.\<close>

definition four_decimals :: "string \<Rightarrow> bool" where
  "four_decimals t =
     (let body = (case t of [] \<Rightarrow> t | c # r \<Rightarrow> if c = CHR ''-'' then r else t);
          ip = takeWhile is_digit body;
          rest = dropWhile is_digit body
      in ip \<noteq> [] \<and> (case rest of
                       [] \<Rightarrow> False
                     | d # fp \<Rightarrow> d = CHR ''.'' \<and> length fp = 4 \<and> list_all is_digit fp))"

text \<open>The similarity of an entry when it is a finite number.\<close>

definition finite_similarity :: "entry \<Rightarrow> rat option" where
  "finite_similarity l =
     (case similarity l of Some (Float (Finite x)) \<Rightarrow> Some x | _ \<Rightarrow> None)"

text \<open>Every entry carries a finite similarity, and no entry has a higher one than an entry
  before it.\<close>

definition by_descending_similarity :: "entry list \<Rightarrow> bool" where
  "by_descending_similarity es =
     sorted_wrt (\<lambda>a b. case finite_similarity a of
                         None \<Rightarrow> False
                       | Some x \<Rightarrow> (case finite_similarity b of
                                     None \<Rightarrow> False
                                   | Some y \<Rightarrow> y \<le> x)) es"

text \<open>The dict \<^verbatim>\<open>rec\<close> that \<^verbatim>\<open>evaluate_answer\<close> inserts for a given answer and
  response.\<close>

definition answer_of :: "coach_service \<Rightarrow> string \<Rightarrow> string \<Rightarrow> answer_record" where
  "answer_of svc student_answer resp =
     \<lparr> question_id = None, user_id = current_user_id svc, user_answer = student_answer,
       model_answer = resp, grade = None, feedback = None \<rparr>"

text \<open>The row an upload creates.\<close>

definition uploaded_row ::
  "(nat \<Rightarrow> string) \<Rightarrow> string \<Rightarrow> string list option \<Rightarrow> nat \<Rightarrow> string \<Rightarrow> attachment" where
  "uploaded_row uuid4_hex uid content_types i aid =
     \<lparr> att_id = aid, owner_user_id = uid, storage_path = attachment_path uuid4_hex i,
       content_type = upload_content_type content_types i, query_id = None, metadata = None \<rparr>"

text \<open>The rows created for the ids \<open>aids\<close> by uploads number \<open>i\<close>, \<open>i + 1\<close>, ...\<close>

fun uploaded_rows ::
  "(nat \<Rightarrow> string) \<Rightarrow> string \<Rightarrow> string list option \<Rightarrow> nat \<Rightarrow> string list \<Rightarrow> attachment list" where
  "uploaded_rows uuid4_hex uid content_types i [] = []"
| "uploaded_rows uuid4_hex uid content_types i (aid # aids) =
     uploaded_row uuid4_hex uid content_types i aid
       # uploaded_rows uuid4_hex uid content_types (Suc i) aids"

text \<open>The upload calls for the images \<open>bs\<close>, numbered from \<open>i\<close>.\<close>

fun upload_calls ::
  "config \<Rightarrow> (nat \<Rightarrow> string) \<Rightarrow> string \<Rightarrow> string list option \<Rightarrow> nat \<Rightarrow> bytes list
     \<Rightarrow> store_call list" where
  "upload_calls cfg uuid4_hex uid content_types i [] = []"
| "upload_calls cfg uuid4_hex uid content_types i (b # bs) =
     Upload_attachment uid (SUPABASE_STORAGE_BUCKET cfg) (attachment_path uuid4_hex i) b
         (upload_content_type content_types i)
       # upload_calls cfg uuid4_hex uid content_types (Suc i) bs"

text \<open>The update calls for the ids \<open>aids\<close>, numbered from \<open>idx\<close>, each followed by the
  log call when the update raises.\<close>

fun backfill_calls ::
  "knowledge_repo \<Rightarrow> string \<Rightarrow> string \<Rightarrow> string list option \<Rightarrow> nat \<Rightarrow> string list
     \<Rightarrow> store_call list" where
  "backfill_calls repo qid uid content_types idx [] = []"
| "backfill_calls repo qid uid content_types idx (aid # aids) =
     Update_attachment aid qid (backfill_metadata qid uid content_types idx)
       # (case update_error repo aid of
            None \<Rightarrow> []
          | Some e \<Rightarrow> [Log_update_failure aid qid e])
       @ backfill_calls repo qid uid content_types (Suc idx) aids"

text \<open>What the back-fill loop over \<open>aids\<close>, numbered from \<open>idx\<close>, does to one row.\<close>

fun backfill_row ::
  "knowledge_repo \<Rightarrow> string \<Rightarrow> string \<Rightarrow> string list option \<Rightarrow> nat \<Rightarrow> string list
     \<Rightarrow> attachment \<Rightarrow> attachment" where
  "backfill_row repo qid uid content_types idx [] r = r"
| "backfill_row repo qid uid content_types idx (aid # aids) r =
     backfill_row repo qid uid content_types (Suc idx) aids
       (if update_error repo aid = None \<and> att_id r = aid
        then r\<lparr>query_id := Some qid,
               metadata := Some (backfill_metadata qid uid content_types idx)\<rparr>
        else r)"

subsection \<open>Example data\<close>

definition ex_config :: config where
  "ex_config =
     \<lparr> COHERE_API_KEY = None, COHERE_MODEL = Some ''large'', PGVECTOR_DIMENSION = Some 3,
       TOP_K = 2, MIN_PIXELS = 3136, MAX_PIXELS = 401408,
       SUPABASE_STORAGE_BUCKET = ''attachments'', MODEL_NAME = ''coach-model'' \<rparr>"

text \<open>An SDK of the older shape only, whose vectors have width \<open>w\<close>.\<close>

definition ex_sdk :: "nat \<Rightarrow> sdk_client" where
  "ex_sdk w =
     \<lparr> embeddings_create = (\<lambda>m texts. None),
       sdk_embed = (\<lambda>m texts. Some (map (\<lambda>t. replicate w 1) texts)) \<rparr>"

definition ex_client :: "nat \<Rightarrow> cohere_client" where
  "ex_client w = CohereClient_init ex_config (Some (\<lambda>k. Some (ex_sdk w))) (Some ''key'') None"

text \<open>The store's similarity operator in the examples: the inner product.\<close>

definition dot :: "vector \<Rightarrow> vector \<Rightarrow> rat" where
  "dot v w = sum_list (map (\<lambda>(a, b). a * b) (zip v w))"

definition ex_kes :: "knowledge_entry list" where
  "ex_kes =
     [\<lparr> ke_id = ''7'', ke_topic = ''Fractions'', ke_content = ''A fraction is a part of a whole.'',
        ke_embedding = [77 / 100, 0, 0] \<rparr>,
      \<lparr> ke_id = ''9'', ke_topic = ''Addition'', ke_content = ''Adding combines two amounts.'',
        ke_embedding = [91 / 100, 0, 0] \<rparr>]"

definition ex_repo :: "cohere_client \<Rightarrow> knowledge_entry list \<Rightarrow> knowledge_repo" where
  "ex_repo c kes =
     \<lparr> search = KnowledgeRepository_search (embed ex_config c) dot kes,
       all_lessons = [],
       embed_texts = embed ex_config c,
       get_supabase = Inr True,
       upload_result = (\<lambda>path. Inr (Upload_att (Some (''att:'' @ path)))),
       insert_result = (\<lambda>tbl. Inr (Data (Some ''q-1''))),
       update_error = (\<lambda>aid. None),
       add_embedding_error = None \<rparr>"

definition ex_handler :: model_handler where
  "ex_handler = \<lparr> generate = (\<lambda>msgs max_new_tokens temperature. Inr ''Score: 4/5. Good.'') \<rparr>"

definition ex_svc :: "cohere_client \<Rightarrow> knowledge_entry list \<Rightarrow> coach_service" where
  "ex_svc c kes =
     \<lparr> config = ex_config, knowledge_repo = ex_repo c kes, model_handler = ex_handler,
       current_user_id = Some ''user-1'' \<rparr>"

definition ex_entry_addition :: entry where
  "ex_entry_addition =
     \<lparr> entry_id = Text ''9'', topic = Text ''Addition'',
       content = Text ''Adding combines two amounts.'',
       similarity = Some (Float (Finite (91 / 100))) \<rparr>"

definition ex_entry_fractions :: entry where
  "ex_entry_fractions =
     \<lparr> entry_id = Text ''7'', topic = Text ''Fractions'',
       content = Text ''A fraction is a part of a whole.'',
       similarity = Some (Float (Finite (77 / 100))) \<rparr>"

definition ex_question :: string where
  "ex_question = ''What is 2+2?''"

definition ex_store :: store where
  "ex_store =
     \<lparr> attachments = [], user_queries = [], generated_questions = [], answers = [],
       embeddings = [], calls = [] \<rparr>"

definition ex_answer_record :: answer_record where
  "ex_answer_record =
     \<lparr> question_id = None, user_id = Some ''user-1'', user_answer = ''4'',
       model_answer = ''Score: 4/5. Good.'', grade = None, feedback = None \<rparr>"

text \<open>A service whose store raises on every \<^verbatim>\<open>table_insert\<close>.\<close>

definition ex_svc_insert_fails :: coach_service where
  "ex_svc_insert_fails =
     (ex_svc (ex_client 3) ex_kes)
       \<lparr>knowledge_repo := (ex_repo (ex_client 3) ex_kes)\<lparr>insert_result := (\<lambda>tbl. Inl StoreError)\<rparr>\<rparr>"

text \<open>An entry whose topic and content hold \<^verbatim>\<open>None\<close>, and a service whose search returns
  it.\<close>

definition ex_entry_null_content :: entry where
  "ex_entry_null_content =
     \<lparr> entry_id = Text ''3'', topic = Holds_None, content = Holds_None, similarity = None \<rparr>"


text \<open>A service whose store raises on the update of the second example attachment only.\<close>

definition ex_svc_second_update_fails :: coach_service where
  "ex_svc_second_update_fails =
     (ex_svc (ex_client 3) ex_kes)
       \<lparr>knowledge_repo :=
          (ex_repo (ex_client 3) ex_kes)
            \<lparr>update_error :=
               (\<lambda>aid. if aid = ''att:attachments/a1b2_1.png'' then Some StoreError else None)\<rparr>\<rparr>"

definition ex_uuid :: "nat \<Rightarrow> string" where
  "ex_uuid i = (if i = 0 then ''0f0e'' else ''a1b2'')"

text \<open>A service whose store raises on every \<^verbatim>\<open>table_update\<close>.\<close>

definition ex_svc_update_fails :: coach_service where
  "ex_svc_update_fails =
     (ex_svc (ex_client 3) ex_kes)
       \<lparr>knowledge_repo :=
          (ex_repo (ex_client 3) ex_kes)\<lparr>update_error := (\<lambda>aid. Some StoreError)\<rparr>\<rparr>"

text \<open>A service whose store returns nothing for the first upload.\<close>

definition ex_svc_first_upload_none :: coach_service where
  "ex_svc_first_upload_none =
     (ex_svc (ex_client 3) ex_kes)
       \<lparr>knowledge_repo :=
          (ex_repo (ex_client 3) ex_kes)
            \<lparr>upload_result :=
               (\<lambda>path. if path = attachment_path ex_uuid 0 then Inr Upload_none
                        else Inr (Upload_att (Some (''att:'' @ path))))\<rparr>\<rparr>"

definition ex_images :: "bytes list" where
  "ex_images = [''PNG1'', ''JPG2'']"

definition ex_types :: "string list" where
  "ex_types = [''image/png'', ''image/jpeg'']"

definition ex_aids :: "string list" where
  "ex_aids = [''att:attachments/0f0e_0.png'', ''att:attachments/a1b2_1.png'']"

section \<open>Properties\<close>

subsection \<open>The embedding adapter\<close>

lemma init_unavailable:
  "cohere = None \<or> (\<not> truthy_str key \<and> \<not> truthy_str (COHERE_API_KEY cfg))
     \<Longrightarrow> \<not> is_available (CohereClient_init cfg cohere key mdl)"
  by (auto simp: is_available_def CohereClient_init_def truthy_str_def Let_def
           split: option.splits)

lemma ex_client_client: "client (ex_client w) = Some (ex_sdk w)"
  by (simp add: ex_client_def CohereClient_init_def truthy_str_def ex_config_def)

lemma ex_client_vectors:
  "provider_vectors (ex_sdk w) (model (ex_client w)) [t] = Inr [replicate w 1]"
  by (simp add: provider_vectors_def ex_sdk_def)

text \<open>
  C1. The target width is what the code computes as \<^verbatim>\<open>dim\<close>, the configured
  \<^verbatim>\<open>PGVECTOR_DIMENSION\<close> or 384 when that is unset or zero. Whenever the provider
  returns a non-empty sequence of vectors, \<open>embed\<close> fails with \<open>DimensionMismatch\<close> if
  the width of the first vector differs from the target width, and returns the provider's
  vectors unchanged, neither truncated nor padded, if it equals it.
\<close>

theorem embed_dimension_check:
  assumes "client c = Some sdk"
    and "provider_vectors sdk (model c) texts = Inr (v # vs)"
  shows "(int (length v) \<noteq> target_dimension cfg \<longrightarrow>
            embed cfg c texts = Inl (DimensionMismatch (length v) (target_dimension cfg)))
       \<and> (int (length v) = target_dimension cfg \<longrightarrow> embed cfg c texts = Inr (v # vs))
       \<and> target_dimension cfg =
            (case PGVECTOR_DIMENSION cfg of None \<Rightarrow> 384 | Some D \<Rightarrow> if D = 0 then 384 else D)"
  using assms by (simp add: embed_def target_dimension_def int_or_def)

theorem embed_dimension_check_witness:
  "embed ex_config (ex_client 4) [''q''] = Inl (DimensionMismatch 4 3)
   \<and> embed ex_config (ex_client 3) [''q''] = Inr [[1, 1, 1]]"
proof -
  have wide: "provider_vectors (ex_sdk 4) (model (ex_client 4)) [''q''] = Inr [replicate 4 1]"
    by (rule ex_client_vectors)
  have fit: "provider_vectors (ex_sdk 3) (model (ex_client 3)) [''q''] = Inr [replicate 3 1]"
    by (rule ex_client_vectors)
  show ?thesis
    using embed_dimension_check [OF ex_client_client wide, of ex_config]
          embed_dimension_check [OF ex_client_client fit, of ex_config]
    by (simp add: ex_config_def numeral_3_eq_3)
qed

text \<open>
  C9. For every sequence of texts, \<open>embed\<close> fails with \<open>ProviderUnavailable\<close> when the
  client is not available, which is the case when no credential is configured or no
  client could be built (\<open>init_unavailable\<close>); in particular it does not return an empty
  result.
\<close>

theorem embed_provider_unavailable:
  "\<not> is_available c \<Longrightarrow> embed cfg c texts = Inl ProviderUnavailable"
  by (simp add: embed_def is_available_def)

theorem embed_provider_unavailable_witness:
  "embed ex_config (CohereClient_init ex_config None None None) [''what is a prime?'']
     = Inl ProviderUnavailable"
proof -
  have "\<not> is_available (CohereClient_init ex_config None None None)"
    by (rule init_unavailable) simp
  then show ?thesis
    by (rule embed_provider_unavailable)
qed

subsection \<open>Formatting and substrings\<close>

lemma is_digit_digit_char: "d < 10 \<Longrightarrow> is_digit (digit_char d)"
  unfolding is_digit_def digit_char_def by (rule nth_mem) simp

lemma show_nat_digits: "list_all is_digit (show_nat n)"
proof (induction n rule: show_nat.induct)
  case (1 n)
  show ?case
  proof (cases "n < 10")
    case True
    then show ?thesis by (subst show_nat.simps) (simp add: is_digit_digit_char)
  next
    case False
    then have "list_all is_digit (show_nat (n div 10))" using 1 by simp
    moreover have "is_digit (digit_char (n mod 10))" by (rule is_digit_digit_char) simp
    ultimately show ?thesis using False by (subst show_nat.simps) simp
  qed
qed

lemma show_nat_nonempty: "show_nat n \<noteq> []"
  by (subst show_nat.simps) simp

lemma length_show_nat: "n < 10 ^ k \<Longrightarrow> 0 < k \<Longrightarrow> length (show_nat n) \<le> k"
proof (induction n arbitrary: k rule: show_nat.induct)
  case (1 n)
  show ?case
  proof (cases "n < 10")
    case True
    then show ?thesis using 1(3) by (subst show_nat.simps) simp
  next
    case False
    obtain j where k: "k = Suc j" using 1(3) by (cases k) auto
    have "0 < j" using False 1(2) k by (cases j) auto
    moreover have "n div 10 < 10 ^ j" using 1(2) k by (simp add: less_mult_imp_div_less mult.commute)
    ultimately have "length (show_nat (n div 10)) \<le> j" using 1(1) False by simp
    then show ?thesis using False k by (subst show_nat.simps) simp
  qed
qed

lemma pad4_shape: "m < 10000 \<Longrightarrow> length (pad4 m) = 4 \<and> list_all is_digit (pad4 m)"
proof -
  assume "m < 10000"
  then have "length (show_nat m) \<le> 4" using length_show_nat [of m 4] by simp
  moreover have "is_digit (CHR ''0'')" by (simp add: is_digit_def)
  ultimately show ?thesis
    using show_nat_digits [of m] by (auto simp: pad4_def list_all_iff)
qed

lemma four_decimals_fmt4: "four_decimals (fmt4 x)"
proof -
  define n where "n = nat (round_half_even (\<bar>x\<bar> * 10000))"
  define ip where "ip = show_nat (n div 10000)"
  define fp where "fp = pad4 (n mod 10000)"
  have ip: "ip \<noteq> []" "list_all is_digit ip"
    by (simp_all add: ip_def show_nat_nonempty show_nat_digits)
  have fp: "length fp = 4" "list_all is_digit fp"
    using pad4_shape [of "n mod 10000"] by (simp_all add: fp_def)
  have nd: "\<not> is_digit (CHR ''.'')" "\<not> is_digit (CHR ''-'')" by (simp_all add: is_digit_def)
  have tw: "takeWhile is_digit (ip @ CHR ''.'' # fp) = ip"
    using ip(2) nd(1) by (simp add: takeWhile_append2 list_all_iff)
  have dw: "dropWhile is_digit (ip @ CHR ''.'' # fp) = CHR ''.'' # fp"
    using ip(2) nd(1) by (simp add: dropWhile_append2 list_all_iff)
  have hd_ip: "hd ip \<noteq> CHR ''-''" using ip nd(2) by (cases ip) auto
  have body: "four_decimals (ip @ ''.'' @ fp)"
    using ip fp tw dw hd_ip nd by (cases ip) (auto simp: four_decimals_def Let_def)
  have neg: "four_decimals (''-'' @ ip @ ''.'' @ fp)"
    using ip fp tw dw by (simp add: four_decimals_def Let_def)
  have "fmt4 x = (if x < 0 then ''-'' else []) @ ip @ ''.'' @ fp"
    by (simp add: fmt4_def Let_def n_def ip_def fp_def)
  then show ?thesis using body neg by simp
qed

lemma is_prefix_same: "is_prefix xs (xs @ ys)"
  by (induction xs) auto

lemma is_prefix_extend: "is_prefix xs ys \<Longrightarrow> is_prefix xs (ys @ zs)"
  by (induction xs ys rule: is_prefix.induct) auto

lemma contains_nil: "contains hay []"
  by (cases hay) auto

lemma contains_after: "contains hay needle \<Longrightarrow> contains (pre @ hay) needle"
  by (induction pre) (auto simp: contains_nil)

lemma contains_before: "contains hay needle \<Longrightarrow> contains (hay @ post) needle"
proof (induction hay)
  case Nil
  then show ?case by (simp add: contains_nil)
next
  case (Cons h hay)
  then show ?case using is_prefix_extend [of needle "h # hay" post] by auto
qed

lemma contains_self: "contains xs xs"
  using is_prefix_same [of xs "[]"] by (cases xs) auto

lemma contains_mid: "contains (a @ b @ c) b"
  by (intro contains_after contains_before contains_self)

lemma contains_join: "x \<in> set xs \<Longrightarrow> contains (join sep xs) x"
proof (induction sep xs rule: join.induct)
  case (1 sep)
  then show ?case by simp
next
  case (2 sep y)
  then show ?case by (simp add: contains_self)
next
  case (3 sep y z zs)
  show ?case
  proof (cases "x = y")
    case True
    then show ?thesis using contains_before [OF contains_self, of y "sep @ join sep (z # zs)"] by simp
  next
    case False
    then have "contains (join sep (z # zs)) x" using 3 by simp
    then have "contains ((y @ sep) @ join sep (z # zs)) x" by (rule contains_after)
    then show ?thesis by simp
  qed
qed

subsection \<open>Retrieval\<close>

lemma ex_embed: "embed ex_config (ex_client 3) [q] = Inr [[1, 1, 1]]"
  by (simp add: embed_def ex_client_client ex_client_vectors target_dimension_def int_or_def
        ex_config_def numeral_3_eq_3)

lemma ex_search:
  "search (knowledge_repo (ex_svc c kes)) = KnowledgeRepository_search (embed ex_config c) dot kes"
  by (simp add: ex_svc_def ex_repo_def)

lemma ex_config_of: "config (ex_svc c kes) = ex_config"
  by (simp add: ex_svc_def)

lemma ex_top_k: "TOP_K ex_config = 2"
  by (simp add: ex_config_def)

lemma ex_store_search_2:
  "store_search dot ex_kes [1, 1, 1] 2 = [ex_entry_addition, ex_entry_fractions]"
  by code_simp

lemma ex_store_search_1:
  "store_search dot ex_kes [1, 1, 1] 1 = [ex_entry_addition]"
  by code_simp

lemma ex_find_relevant_default:
  "find_relevant (ex_svc (ex_client 3) ex_kes) q None = Inr [ex_entry_addition, ex_entry_fractions]"
  by (simp add: find_relevant_def ex_search KnowledgeRepository_search_def ex_embed int_or_def
        ex_config_of ex_top_k ex_store_search_2)

text \<open>
  C5, as stated, fails: with two stored entries and \<open>TOP_K = 2\<close>, a call with
  \<open>top_k = 0\<close> is not rejected; \<^verbatim>\<open>top_k or self.config.TOP_K\<close> replaces the zero by
  the default and both entries are returned.
\<close>

theorem find_relevant_zero_counterexample:
  "find_relevant (ex_svc (ex_client 3) ex_kes) ''What is 2+2?'' (Some 0)
     = Inr [ex_entry_addition, ex_entry_fractions]
   \<and> find_relevant (ex_svc (ex_client 3) ex_kes) ''What is 2+2?'' (Some 0)
     = find_relevant (ex_svc (ex_client 3) ex_kes) ''What is 2+2?'' None"
  by (simp add: find_relevant_def ex_search KnowledgeRepository_search_def ex_embed int_or_def
        ex_config_of ex_top_k ex_store_search_2)

lemma store_search_length: "length (store_search sim kes v k) \<le> k"
  by (simp add: store_search_def)

lemma store_search_descending: "by_descending_similarity (store_search sim kes v k)"
proof -
  let ?key = "\<lambda>ke. - sim v (ke_embedding ke)"
  have "sorted (map ?key (take k (sort_key ?key kes)))"
    by (simp add: sorted_wrt_take flip: take_map)
  then have "sorted_wrt (\<lambda>a b. ?key a \<le> ?key b) (take k (sort_key ?key kes))"
    by (simp add: sorted_map)
  then show ?thesis
    by (simp add: by_descending_similarity_def store_search_def sorted_wrt_map to_entry_def
          finite_similarity_def)
qed

lemma search_result:
  assumes "KnowledgeRepository_search embedder sim kes q k = Inr es"
  shows "1 \<le> k \<and> int (length es) \<le> k \<and> by_descending_similarity es"
proof -
  have k: "1 \<le> k"
    using assms by (auto simp: KnowledgeRepository_search_def split: if_splits)
  have "es = [] \<or> (\<exists>v. es = store_search sim kes v (nat k))"
    using assms k
    by (auto simp: KnowledgeRepository_search_def split: if_splits sum.splits list.splits)
  then show ?thesis
  proof
    assume "es = []"
    then show ?thesis using k by (simp add: by_descending_similarity_def)
  next
    assume "\<exists>v. es = store_search sim kes v (nat k)"
    then obtain v where es: "es = store_search sim kes v (nat k)" ..
    have "length es \<le> nat k" unfolding es by (rule store_search_length)
    then have "int (length es) \<le> k" using k by linarith
    moreover have "by_descending_similarity es" unfolding es by (rule store_search_descending)
    ultimately show ?thesis using k by simp
  qed
qed

text \<open>
  C5, amended. \<open>find_relevant\<close> hands the repository's search the configured default
  when \<open>top_k\<close> is not supplied or is zero, and \<open>top_k\<close> itself otherwise. With the
  search of the spec, a negative \<open>top_k\<close> is rejected, and a call that returns entries
  returns at most that many, ordered by descending similarity.
\<close>

theorem find_relevant_top_k:
  assumes "search (knowledge_repo svc) = KnowledgeRepository_search embedder sim kes"
  shows "find_relevant svc query top_k =
           search (knowledge_repo svc) query
             (case top_k of None \<Rightarrow> TOP_K (config svc)
              | Some k \<Rightarrow> if k = 0 then TOP_K (config svc) else k)
       \<and> (\<forall>k. top_k = Some k \<and> k < 0 \<longrightarrow> find_relevant svc query top_k = Inl InvalidTopK)
       \<and> (\<forall>es. find_relevant svc query top_k = Inr es \<longrightarrow>
              int (length es) \<le> (case top_k of None \<Rightarrow> TOP_K (config svc)
                                  | Some k \<Rightarrow> if k = 0 then TOP_K (config svc) else k)
              \<and> by_descending_similarity es)"
proof (intro conjI allI impI)
  show "find_relevant svc query top_k =
           search (knowledge_repo svc) query
             (case top_k of None \<Rightarrow> TOP_K (config svc)
              | Some k \<Rightarrow> if k = 0 then TOP_K (config svc) else k)"
    by (simp add: find_relevant_def int_or_def)
next
  fix k assume "top_k = Some k \<and> k < 0"
  then show "find_relevant svc query top_k = Inl InvalidTopK"
    using assms by (simp add: find_relevant_def int_or_def KnowledgeRepository_search_def)
next
  fix es assume "find_relevant svc query top_k = Inr es"
  then have r: "KnowledgeRepository_search embedder sim kes query
                  (int_or top_k (TOP_K (config svc))) = Inr es"
    using assms by (simp add: find_relevant_def)
  show "int (length es) \<le> (case top_k of None \<Rightarrow> TOP_K (config svc)
                                  | Some k \<Rightarrow> if k = 0 then TOP_K (config svc) else k)"
    using search_result [OF r] by (simp add: int_or_def)
  show "by_descending_similarity es"
    using search_result [OF r] by simp
qed

theorem find_relevant_top_k_witness:
  "find_relevant (ex_svc (ex_client 3) ex_kes) ''What is 2+2?'' (Some 1) = Inr [ex_entry_addition]
   \<and> find_relevant (ex_svc (ex_client 3) ex_kes) ''What is 2+2?'' (Some (- 1)) = Inl InvalidTopK
   \<and> by_descending_similarity [ex_entry_addition, ex_entry_fractions]"
proof -
  note inst = find_relevant_top_k [OF ex_search, of "ex_client 3" ex_kes "''What is 2+2?''"]
  have one: "find_relevant (ex_svc (ex_client 3) ex_kes) ''What is 2+2?'' (Some 1)
               = Inr [ex_entry_addition]"
    using inst [of "Some 1"] ex_store_search_1
    by (simp add: ex_search KnowledgeRepository_search_def ex_embed)
  have neg: "find_relevant (ex_svc (ex_client 3) ex_kes) ''What is 2+2?'' (Some (- 1))
               = Inl InvalidTopK"
    using inst [of "Some (- 1)", THEN conjunct2, THEN conjunct1, rule_format, of "- 1"] by simp
  have "by_descending_similarity [ex_entry_addition, ex_entry_fractions]"
    using inst [of None, THEN conjunct2, THEN conjunct2, rule_format,
               of "[ex_entry_addition, ex_entry_fractions]"]
    by (simp add: ex_find_relevant_default)
  then show ?thesis using one neg by simp
qed

text \<open>
  C4. With the search of the spec behind it, for every query string and every valid
  \<open>top_k\<close> (at least 1 once the default is substituted), if embedding the query fails
  then \<open>find_relevant\<close> returns the empty sequence and raises nothing.
\<close>

theorem find_relevant_embedding_failure:
  assumes "search (knowledge_repo svc) = KnowledgeRepository_search embedder sim kes"
    and "embedder [query] = Inl e"
    and "1 \<le> int_or top_k (TOP_K (config svc))"
  shows "find_relevant svc query top_k = Inr []"
  using assms by (simp add: find_relevant_def KnowledgeRepository_search_def)

theorem find_relevant_embedding_failure_witness:
  "embed ex_config (CohereClient_init ex_config None None None) [''What is 2+2?'']
     = Inl ProviderUnavailable
   \<and> find_relevant (ex_svc (CohereClient_init ex_config None None None) ex_kes)
        ''What is 2+2?'' None = Inr []"
proof -
  have unavailable: "\<not> is_available (CohereClient_init ex_config None None None)"
    by (rule init_unavailable) simp
  have fails: "embed ex_config (CohereClient_init ex_config None None None) [''What is 2+2?'']
                 = Inl ProviderUnavailable"
    using unavailable by (simp add: embed_def is_available_def)
  have valid: "1 \<le> int_or None (TOP_K (config (ex_svc (CohereClient_init ex_config None None None) ex_kes)))"
    by (simp add: int_or_def ex_config_of ex_top_k)
  show ?thesis
    using fails find_relevant_embedding_failure [OF ex_search fails valid] by simp
qed

subsection \<open>Prompt assembly\<close>

lemma collect_Inr_iff: "collect f xs = Inr ys \<longleftrightarrow> list_all2 (\<lambda>x y. f x = Inr y) xs ys"
proof (induction xs arbitrary: ys)
  case Nil
  then show ?case by auto
next
  case (Cons x xs)
  show ?case
  proof (cases "f x")
    case (Inl e)
    then show ?thesis by (auto simp: list_all2_Cons1)
  next
    case (Inr y)
    then show ?thesis
      using Cons.IH by (cases "collect f xs") (auto simp: list_all2_Cons1)
  qed
qed

lemma collect_returns: "(\<forall>x \<in> set xs. \<exists>y. f x = Inr y) \<Longrightarrow> \<exists>ys. collect f xs = Inr ys"
proof (induction xs)
  case Nil
  then show ?case by simp
next
  case (Cons x xs)
  then obtain y ys where "f x = Inr y" "collect f xs = Inr ys" by auto
  then show ?case by simp
qed

lemma collect_raises: "x \<in> set xs \<Longrightarrow> f x = Inl e \<Longrightarrow> \<exists>e'. collect f xs = Inl e'"
proof (induction xs)
  case Nil
  then show ?case by simp
next
  case (Cons z zs)
  show ?case
  proof (cases "f z")
    case (Inl e1)
    then show ?thesis by simp
  next
    case (Inr y)
    then have "x \<in> set zs" using Cons.prems by auto
    then obtain e' where "collect f zs = Inl e'" using Cons by blast
    then show ?thesis using Inr by simp
  qed
qed

lemma user_turn_of_messages: "user_turn_texts (messages_of cfg prompt img) = [prompt]"
  by (cases img) (simp_all add: user_turn_texts_def messages_of_def)

lemma retrieved_line_returns:
  "(\<forall>e. similarity l \<noteq> Some (Not_float e)) \<Longrightarrow> \<exists>line. retrieved_line l = Inr line"
proof -
  assume ok: "\<forall>e. similarity l \<noteq> Some (Not_float e)"
  have "\<exists>s. sim_str (similarity l) = Inr s"
  proof (cases "similarity l")
    case None
    then show ?thesis by (simp add: sim_str_def)
  next
    case (Some v)
    then show ?thesis using ok by (cases v) (simp_all add: sim_str_def)
  qed
  then show ?thesis by (auto simp: retrieved_line_def Let_def)
qed

lemma retrieved_line_shape:
  "retrieved_line l = Inr line \<Longrightarrow>
     \<exists>s. sim_str (similarity l) = Inr s
         \<and> line = ''ID: '' @ str_of (dict_get (entry_id l)) @ nl
                    @ ''Topic: '' @ str_of (dict_get_or (topic l) []) @ nl
                    @ ''Similarity: '' @ s @ nl @ str_of (dict_get_or (content l) []) @ nl @ ''---''"
  by (auto simp: retrieved_line_def Let_def split: sum.splits)

lemma contains_question: "contains (user_prompt_of section query) (''Question: '' @ query)"
proof -
  have "contains ((section @ nl @ nl) @ (''Question: '' @ query) @ (nl @ nl
           @ ''Provide a clear, educational explanation that directly uses the retrieved documents.''))
          (''Question: '' @ query)"
    by (rule contains_mid)
  then show ?thesis by (simp add: user_prompt_of_def)
qed

text \<open>
  C6, amended. When retrieval returned nothing, the user turn is the literal marker
  \<open>Retrieved documents: none available.\<close>, a blank line, \<open>Question: \<close> with the literal
  question text, a blank line and the closing instruction. When it returned entries and
  \<^verbatim>\<open>float()\<close> accepts the similarity of each, the user turn is one text that lists every
  entry, in order, as \<open>ID\<close>, \<open>Topic\<close>, \<open>Similarity\<close> and content (an id that is missing
  and a topic or content that holds \<^verbatim>\<open>None\<close> print as \<open>None\<close>, a missing topic or content
  as nothing) and ends in the same way with the question text. The similarity is printed
  with exactly four decimal places when it is a finite number or the negative zero, as
  \<open>inf\<close>, \<open>-inf\<close> or \<open>nan\<close> when it is not finite, and as \<open>N/A\<close> when the entry carries
  none. When \<^verbatim>\<open>float()\<close> rejects the similarity of an entry, the assembly raises,
  and the exception leaves \<open>generate_explanation\<close> before the model is called.
\<close>

theorem explanation_user_turn:
  "(explanation_prompt svc query relevant img = Inr msgs \<longrightarrow>
      (\<exists>t. user_prompt (explanation_entries svc query relevant) query = Inr t
           \<and> user_turn_texts msgs = [t]))
   \<and> user_prompt [] query
       = Inr (''Retrieved documents: none available.'' @ nl @ nl @ ''Question: '' @ query @ nl @ nl
                @ ''Provide a clear, educational explanation that directly uses the retrieved documents.'')
   \<and> (es \<noteq> [] \<and> (\<forall>l \<in> set es. \<forall>e. similarity l \<noteq> Some (Not_float e)) \<longrightarrow>
        (\<exists>lines.
            list_all2
              (\<lambda>l line. \<exists>s. sim_str (similarity l) = Inr s
                  \<and> line = ''ID: '' @ str_of (dict_get (entry_id l)) @ nl
                             @ ''Topic: '' @ str_of (dict_get_or (topic l) []) @ nl
                             @ ''Similarity: '' @ s @ nl
                             @ str_of (dict_get_or (content l) []) @ nl @ ''---'')
              es lines
            \<and> user_prompt es query
                = Inr (''Retrieved documents:'' @ nl @ join nl lines @ nl @ nl
                         @ ''Question: '' @ query @ nl @ nl
                         @ ''Provide a clear, educational explanation that directly uses the retrieved documents.'')
            \<and> (\<forall>line \<in> set lines.
                  contains
                    (''Retrieved documents:'' @ nl @ join nl lines @ nl @ nl
                       @ ''Question: '' @ query @ nl @ nl
                       @ ''Provide a clear, educational explanation that directly uses the retrieved documents.'')
                    line)))
   \<and> (user_prompt es query = Inr t \<longrightarrow> contains t (''Question: '' @ query))
   \<and> sim_str None = Inr ''N/A''
   \<and> sim_str (Some (Float (Finite x))) = Inr (fmt4 x) \<and> four_decimals (fmt4 x)
   \<and> sim_str (Some (Float Neg_zero)) = Inr ''-0.0000'' \<and> four_decimals ''-0.0000''
   \<and> sim_str (Some (Float Pos_inf)) = Inr ''inf''
   \<and> sim_str (Some (Float Neg_inf)) = Inr ''-inf''
   \<and> sim_str (Some (Float NaN)) = Inr ''nan''
   \<and> (l \<in> set es \<and> similarity l = Some (Not_float e) \<longrightarrow> (\<exists>e'. user_prompt es query = Inl e'))
   \<and> (user_prompt (explanation_entries svc query relevant) query = Inl err \<longrightarrow>
        explanation_prompt svc query relevant img = Inl err
        \<and> generate_explanation svc query relevant img = Inl err)"
proof -
  let ?tail = "nl @ nl @ ''Question: '' @ query @ nl @ nl
                 @ ''Provide a clear, educational explanation that directly uses the retrieved documents.''"
  have turn: "explanation_prompt svc query relevant img = Inr msgs \<longrightarrow>
      (\<exists>t. user_prompt (explanation_entries svc query relevant) query = Inr t
           \<and> user_turn_texts msgs = [t])"
    by (auto simp: explanation_prompt_def explanation_messages_def user_turn_of_messages
             split: sum.splits)
  have none: "user_prompt [] query = Inr (''Retrieved documents: none available.'' @ ?tail)"
    by (simp add: user_prompt_def retrieved_section_def user_prompt_of_def)
  have listed: "es \<noteq> [] \<and> (\<forall>l \<in> set es. \<forall>e. similarity l \<noteq> Some (Not_float e)) \<longrightarrow>
        (\<exists>lines.
            list_all2
              (\<lambda>l line. \<exists>s. sim_str (similarity l) = Inr s
                  \<and> line = ''ID: '' @ str_of (dict_get (entry_id l)) @ nl
                             @ ''Topic: '' @ str_of (dict_get_or (topic l) []) @ nl
                             @ ''Similarity: '' @ s @ nl
                             @ str_of (dict_get_or (content l) []) @ nl @ ''---'')
              es lines
            \<and> user_prompt es query = Inr (''Retrieved documents:'' @ nl @ join nl lines @ ?tail)
            \<and> (\<forall>line \<in> set lines.
                  contains (''Retrieved documents:'' @ nl @ join nl lines @ ?tail) line))"
  proof (intro impI)
    assume a: "es \<noteq> [] \<and> (\<forall>l \<in> set es. \<forall>e. similarity l \<noteq> Some (Not_float e))"
    have "\<forall>l \<in> set es. \<exists>line. retrieved_line l = Inr line"
    proof
      fix l' assume "l' \<in> set es"
      then have "\<forall>e. similarity l' \<noteq> Some (Not_float e)" using a by simp
      then show "\<exists>line. retrieved_line l' = Inr line" by (rule retrieved_line_returns)
    qed
    then have "\<exists>lines. collect retrieved_line es = Inr lines"
      by (rule collect_returns)
    then obtain lines where lines: "collect retrieved_line es = Inr lines" ..
    then have "list_all2 (\<lambda>l line. retrieved_line l = Inr line) es lines"
      by (simp add: collect_Inr_iff)
    then have shape: "list_all2
              (\<lambda>l line. \<exists>s. sim_str (similarity l) = Inr s
                  \<and> line = ''ID: '' @ str_of (dict_get (entry_id l)) @ nl
                             @ ''Topic: '' @ str_of (dict_get_or (topic l) []) @ nl
                             @ ''Similarity: '' @ s @ nl
                             @ str_of (dict_get_or (content l) []) @ nl @ ''---'')
              es lines"
      by (rule list_all2_mono) (rule retrieved_line_shape)
    have prompt: "user_prompt es query
                    = Inr (''Retrieved documents:'' @ nl @ join nl lines @ ?tail)"
      using a lines by (simp add: user_prompt_def retrieved_section_def user_prompt_of_def)
    have "\<forall>line \<in> set lines.
            contains (''Retrieved documents:'' @ nl @ join nl lines @ ?tail) line"
    proof
      fix line assume "line \<in> set lines"
      then have "contains (join nl lines) line" by (rule contains_join)
      then have "contains ((''Retrieved documents:'' @ nl) @ join nl lines) line"
        by (rule contains_after)
      then have "contains (((''Retrieved documents:'' @ nl) @ join nl lines) @ ?tail) line"
        by (rule contains_before)
      then show "contains (''Retrieved documents:'' @ nl @ join nl lines @ ?tail) line"
        by simp
    qed
    then have cont: "\<forall>line \<in> set lines.
            contains (''Retrieved documents:'' @ nl @ join nl lines @ ?tail) line" .
    show "\<exists>lines.
            list_all2
              (\<lambda>l line. \<exists>s. sim_str (similarity l) = Inr s
                  \<and> line = ''ID: '' @ str_of (dict_get (entry_id l)) @ nl
                             @ ''Topic: '' @ str_of (dict_get_or (topic l) []) @ nl
                             @ ''Similarity: '' @ s @ nl
                             @ str_of (dict_get_or (content l) []) @ nl @ ''---'')
              es lines
            \<and> user_prompt es query = Inr (''Retrieved documents:'' @ nl @ join nl lines @ ?tail)
            \<and> (\<forall>line \<in> set lines.
                  contains (''Retrieved documents:'' @ nl @ join nl lines @ ?tail) line)"
      by (intro exI [of _ lines] conjI shape prompt cont)
  qed
  have question: "user_prompt es query = Inr t \<longrightarrow> contains t (''Question: '' @ query)"
  proof
    assume "user_prompt es query = Inr t"
    then obtain sec where "t = user_prompt_of sec query"
      by (auto simp: user_prompt_def split: sum.splits)
    then show "contains t (''Question: '' @ query)"
      using contains_question [of sec query] by (simp only:)
  qed
  have formats: "sim_str None = Inr ''N/A''"
    "sim_str (Some (Float (Finite x))) = Inr (fmt4 x)"
    "sim_str (Some (Float Neg_zero)) = Inr ''-0.0000''"
    "sim_str (Some (Float Pos_inf)) = Inr ''inf''"
    "sim_str (Some (Float Neg_inf)) = Inr ''-inf''"
    "sim_str (Some (Float NaN)) = Inr ''nan''"
    by (simp_all add: sim_str_def format_4f_def)
  have decimals: "four_decimals (fmt4 x)"
    by (rule four_decimals_fmt4)
  have neg_zero: "four_decimals ''-0.0000''"
    by (simp add: four_decimals_def is_digit_def)
  have raises: "l \<in> set es \<and> similarity l = Some (Not_float e)
                  \<longrightarrow> (\<exists>e'. user_prompt es query = Inl e')"
  proof (intro impI)
    assume a: "l \<in> set es \<and> similarity l = Some (Not_float e)"
    then have "retrieved_line l = Inl e"
      by (simp add: retrieved_line_def sim_str_def)
    then have "\<exists>e'. collect retrieved_line es = Inl e'"
      using a collect_raises [of l es retrieved_line e] by simp
    then obtain e' where "collect retrieved_line es = Inl e'" ..
    moreover have "es \<noteq> []" using a by auto
    ultimately show "\<exists>e'. user_prompt es query = Inl e'"
      by (simp add: user_prompt_def retrieved_section_def)
  qed
  have reaches: "user_prompt (explanation_entries svc query relevant) query = Inl err \<longrightarrow>
        explanation_prompt svc query relevant img = Inl err
        \<and> generate_explanation svc query relevant img = Inl err"
    by (simp add: generate_explanation_def explanation_prompt_def explanation_messages_def)
  show ?thesis
    by (intro conjI turn none listed question formats decimals neg_zero raises reaches)
qed

lemma ex_fmt4: "fmt4 (91 / 100) = ''0.9100''"
  by (simp add: fmt4_def round_half_even_def pad4_def show_nat.simps digit_char_def Let_def)

lemma ex_entries:
  "explanation_entries (ex_svc (ex_client 3) ex_kes) ex_question []
     = [ex_entry_addition, ex_entry_fractions]"
  by (simp add: explanation_entries_def find_relevant_or_empty_def find_relevant_def ex_search
        KnowledgeRepository_search_def ex_embed int_or_def ex_config_of ex_top_k
        ex_store_search_2)

text \<open>An entry whose topic and content hold \<^verbatim>\<open>None\<close> and that carries no similarity is
  listed with \<open>None\<close> in both places.\<close>

lemma retrieved_line_null_example:
  "retrieved_line ex_entry_null_content
     = Inr (''ID: 3'' @ nl @ ''Topic: None'' @ nl @ ''Similarity: N/A'' @ nl @ ''None'' @ nl
              @ ''---'')"
  by code_simp

theorem explanation_user_turn_witness:
  "(\<exists>t. user_prompt [ex_entry_addition, ex_entry_fractions] ex_question = Inr t
       \<and> contains t
           (''ID: 9'' @ nl @ ''Topic: Addition'' @ nl @ ''Similarity: 0.9100'' @ nl
              @ ''Adding combines two amounts.'' @ nl @ ''---'')
       \<and> contains t (''Question: '' @ ex_question))
   \<and> four_decimals ''0.9100''"
proof -
  let ?es = "[ex_entry_addition, ex_entry_fractions]"
  note inst = explanation_user_turn [of "ex_svc (ex_client 3) ex_kes" ex_question "[]" None _
                ?es _ "91 / 100"]
  have ok: "?es \<noteq> [] \<and> (\<forall>l \<in> set ?es. \<forall>e. similarity l \<noteq> Some (Not_float e))"
    by (simp add: ex_entry_addition_def ex_entry_fractions_def)
  obtain lines where
    shape: "list_all2
              (\<lambda>l line. \<exists>s. sim_str (similarity l) = Inr s
                  \<and> line = ''ID: '' @ str_of (dict_get (entry_id l)) @ nl
                             @ ''Topic: '' @ str_of (dict_get_or (topic l) []) @ nl
                             @ ''Similarity: '' @ s @ nl
                             @ str_of (dict_get_or (content l) []) @ nl @ ''---'')
              ?es lines"
    and prompt: "user_prompt ?es ex_question
                   = Inr (''Retrieved documents:'' @ nl @ join nl lines @ nl @ nl
                            @ ''Question: '' @ ex_question @ nl @ nl
                            @ ''Provide a clear, educational explanation that directly uses the retrieved documents.'')"
    and cont: "\<forall>line \<in> set lines.
                 contains
                   (''Retrieved documents:'' @ nl @ join nl lines @ nl @ nl
                      @ ''Question: '' @ ex_question @ nl @ nl
                      @ ''Provide a clear, educational explanation that directly uses the retrieved documents.'')
                   line"
    using inst [THEN conjunct2, THEN conjunct2, THEN conjunct1, rule_format, OF ok] by blast
  let ?t = "''Retrieved documents:'' @ nl @ join nl lines @ nl @ nl
              @ ''Question: '' @ ex_question @ nl @ nl
              @ ''Provide a clear, educational explanation that directly uses the retrieved documents.''"
  obtain first rest where lines: "lines = first # rest"
    using shape by (cases lines) auto
  have "\<exists>s. sim_str (similarity ex_entry_addition) = Inr s
          \<and> first = ''ID: '' @ str_of (dict_get (entry_id ex_entry_addition)) @ nl
                       @ ''Topic: '' @ str_of (dict_get_or (topic ex_entry_addition) []) @ nl
                       @ ''Similarity: '' @ s @ nl
                       @ str_of (dict_get_or (content ex_entry_addition) []) @ nl @ ''---''"
    using shape lines by simp
  then have first: "first = ''ID: 9'' @ nl @ ''Topic: Addition'' @ nl @ ''Similarity: 0.9100'' @ nl
                              @ ''Adding combines two amounts.'' @ nl @ ''---''"
    by (auto simp: ex_entry_addition_def sim_str_def format_4f_def ex_fmt4 str_of_def dict_get_def
          dict_get_or_def)
  have "contains ?t first" using cont lines by simp
  then have listed: "contains ?t
           (''ID: 9'' @ nl @ ''Topic: Addition'' @ nl @ ''Similarity: 0.9100'' @ nl
              @ ''Adding combines two amounts.'' @ nl @ ''---'')"
    by (simp only: first)
  have question: "contains ?t (''Question: '' @ ex_question)"
    using inst [THEN conjunct2, THEN conjunct2, THEN conjunct2, THEN conjunct1, rule_format,
                OF prompt] .
  have "four_decimals (fmt4 (91 / 100))"
    using inst [THEN conjunct2, THEN conjunct2, THEN conjunct2, THEN conjunct2, THEN conjunct2,
                THEN conjunct2, THEN conjunct1] .
  then have decimals: "four_decimals ''0.9100''"
    by (simp only: ex_fmt4)
  show ?thesis
    by (intro conjI exI [of _ ?t] prompt listed question decimals)
qed

text \<open>
  C6, as stated, fails: with an empty knowledge store and the query \<open>What is 2+2?\<close> the
  user turn holds the marker \<open>Retrieved documents: none available.\<close> and the question,
  and the literal \<open>no documents available\<close> does not occur in it.
\<close>

theorem no_documents_marker_counterexample:
  "map_sum id user_turn_texts
     (explanation_prompt (ex_svc (ex_client 3) []) ''What is 2+2?'' [] None)
     = Inr [''Retrieved documents: none available.'' @ nl @ nl @ ''Question: What is 2+2?'' @ nl
              @ nl
              @ ''Provide a clear, educational explanation that directly uses the retrieved documents.'']
   \<and> \<not> contains
          (''Retrieved documents: none available.'' @ nl @ nl @ ''Question: What is 2+2?'' @ nl @ nl
             @ ''Provide a clear, educational explanation that directly uses the retrieved documents.'')
          ''no documents available''"
  by code_simp

text \<open>
  C7. The assembled prompt is a function of the query, the retrieved entries, the image
  and the two configured pixel bounds: two services that agree on the bounds and on the
  entries retrieval gave, whatever else they differ in (repository, store, model handler,
  signed-in user), assemble the same messages for the same query and image, or raise the
  same exception: the fixed system instruction, then a user turn with the image first, if
  there is one, tagged with the pixel bounds, and the text after it. These messages are
  what the model is called with. Entries handed in by the caller are used as they are.
\<close>

theorem prompt_assembly_deterministic:
  assumes "MIN_PIXELS (config svc1) = MIN_PIXELS (config svc2)"
    and "MAX_PIXELS (config svc1) = MAX_PIXELS (config svc2)"
    and "explanation_entries svc1 query relevant = explanation_entries svc2 query relevant"
  shows "explanation_prompt svc1 query relevant img = explanation_prompt svc2 query relevant img
       \<and> explanation_prompt svc1 query relevant img
           = (case user_prompt (explanation_entries svc1 query relevant) query of
                Inl e \<Rightarrow> Inl e
              | Inr prompt \<Rightarrow>
                  Inr [\<lparr> role = ''system'', msg_content = Plain system_prompt \<rparr>,
                       \<lparr> role = ''user'',
                         msg_content = Parts
                           ((case img of
                               None \<Rightarrow> []
                             | Some i \<Rightarrow> [Image_part i (MIN_PIXELS (config svc1))
                                           (MAX_PIXELS (config svc1))])
                            @ [Text_part prompt]) \<rparr>])
       \<and> generate_explanation svc1 query relevant img
           = (case explanation_prompt svc1 query relevant img of
                Inl e \<Rightarrow> Inl e
              | Inr messages \<Rightarrow> generate (model_handler svc1) messages None None)
       \<and> (relevant \<noteq> [] \<longrightarrow> explanation_entries svc1 query relevant = relevant)"
  using assms
  by (cases img)
     (simp_all add: explanation_prompt_def explanation_messages_def messages_of_def
        generate_explanation_def explanation_entries_def split: sum.splits)

theorem prompt_assembly_deterministic_witness:
  "explanation_prompt (ex_svc (ex_client 3) ex_kes) ex_question [ex_entry_fractions] (Some ''png'')
     = explanation_prompt
         ((ex_svc (ex_client 4) [])\<lparr>current_user_id := None,
            model_handler := \<lparr> generate = (\<lambda>m t p. Inl ModelError) \<rparr>\<rparr>)
         ex_question [ex_entry_fractions] (Some ''png'')"
proof -
  let ?svc1 = "ex_svc (ex_client 3) ex_kes"
  let ?svc2 = "(ex_svc (ex_client 4) [])\<lparr>current_user_id := None,
            model_handler := \<lparr> generate = (\<lambda>m t p. Inl ModelError) \<rparr>\<rparr>"
  have lo: "MIN_PIXELS (config ?svc1) = MIN_PIXELS (config ?svc2)"
    by (simp add: ex_svc_def)
  have hi: "MAX_PIXELS (config ?svc1) = MAX_PIXELS (config ?svc2)"
    by (simp add: ex_svc_def)
  have same: "explanation_entries ?svc1 ex_question [ex_entry_fractions]
                = explanation_entries ?svc2 ex_question [ex_entry_fractions]"
    by (simp add: explanation_entries_def)
  show ?thesis
    using prompt_assembly_deterministic [OF lo hi same, of "Some ''png''"] by (rule conjunct1)
qed

subsection \<open>Recording the evaluation\<close>

lemma logged_fields:
  "attachments (logged c s) = attachments s"
  "user_queries (logged c s) = user_queries s"
  "generated_questions (logged c s) = generated_questions s"
  "answers (logged c s) = answers s"
  "embeddings (logged c s) = embeddings s"
  "calls (logged c s) = calls s @ [c]"
  by (simp_all add: logged_def)


lemma table_insert_answer_answers:
  "answers (snd (table_insert_answer repo s r))
     = (case insert_result repo ''answers'' of
          Inr (Data i) \<Rightarrow> answers s @ [r]
        | _ \<Rightarrow> answers s)"
  by (simp add: table_insert_answer_def Let_def logged_fields split: sum.splits insert_res.splits)

lemma record_answer_skips:
  "\<not> (get_supabase (knowledge_repo svc) = Inr True \<and> truthy_str (current_user_id svc))
     \<Longrightarrow> record_answer svc s a resp = s"
  by (auto simp: record_answer_def split: sum.splits)

lemma record_answer_inserts:
  "get_supabase (knowledge_repo svc) = Inr True \<Longrightarrow> truthy_str (current_user_id svc)
     \<Longrightarrow> record_answer svc s a resp
           = snd (table_insert_answer (knowledge_repo svc) s (answer_of svc a resp))"
  by (simp add: record_answer_def answer_of_def)



text \<open>
  C10. Whenever \<open>evaluate_answer\<close> persists an AnswerRecord, exactly one is added; its
  \<open>question_id\<close>, \<open>grade\<close> and \<open>feedback\<close> are null, its \<open>user_id\<close> is the current
  principal, who is authenticated, its \<open>user_answer\<close> is the student's answer and its
  \<open>model_answer\<close> is the very text returned to the caller.
\<close>

theorem answer_record_fields:
  assumes "evaluate_answer svc s question student_answer correct_concept = (res, s')"
    and "answers s' \<noteq> answers s"
  shows "\<exists>resp. res = Inr resp
           \<and> answers s' = answers s @
                [\<lparr> question_id = None, user_id = current_user_id svc,
                   user_answer = student_answer, model_answer = resp, grade = None,
                   feedback = None \<rparr>]
           \<and> truthy_str (current_user_id svc)"
proof -
  have "\<exists>resp. res = Inr resp \<and> s' = record_answer svc s student_answer resp"
  proof (cases "evaluation_messages svc question student_answer correct_concept")
    case (Inl e)
    then have "s' = s" using assms(1) by (simp add: evaluate_answer_def)
    then show ?thesis using assms(2) by simp
  next
    case (Inr msgs)
    show ?thesis
    proof (cases "generate (model_handler svc) msgs (Some 512) None")
      case (Inl e)
      then have "s' = s" using assms(1) Inr by (simp add: evaluate_answer_def)
      then show ?thesis using assms(2) by simp
    next
      case gen: (Inr resp)
      then have "res = Inr resp" "s' = record_answer svc s student_answer resp"
        using assms(1) Inr by (simp_all add: evaluate_answer_def)
      then show ?thesis by blast
    qed
  qed
  then obtain resp where res: "res = Inr resp"
    and s': "s' = record_answer svc s student_answer resp" by blast
  have both: "get_supabase (knowledge_repo svc) = Inr True \<and> truthy_str (current_user_id svc)"
  proof (rule ccontr)
    assume "\<not> ?thesis"
    then have "record_answer svc s student_answer resp = s" by (rule record_answer_skips)
    then show False using assms(2) s' by simp
  qed
  then have "s' = snd (table_insert_answer (knowledge_repo svc) s
                         (answer_of svc student_answer resp))"
    using s' by (simp add: record_answer_inserts)
  then have "answers s' = answers s @ [answer_of svc student_answer resp]"
    using assms(2) by (auto simp: table_insert_answer_answers split: sum.splits insert_res.splits)
  then show ?thesis using res both by (simp add: answer_of_def)
qed

lemma ex_generates:
  "generate (model_handler (ex_svc c kes)) msgs max_new_tokens temperature
     = Inr ''Score: 4/5. Good.''"
  by (simp add: ex_svc_def ex_handler_def)

lemma ex_connected: "get_supabase (knowledge_repo (ex_svc c kes)) = Inr True"
  by (simp add: ex_svc_def ex_repo_def)

lemma ex_signed_in: "truthy_str (current_user_id (ex_svc c kes))"
  by (simp add: ex_svc_def truthy_str_def)

lemma ex_user: "current_user_id (ex_svc c kes) = Some ''user-1''"
  by (simp add: ex_svc_def)

lemma ex_insert_returns: "insert_result (knowledge_repo (ex_svc c kes)) tbl = Inr (Data (Some ''q-1''))"
  by (simp add: ex_svc_def ex_repo_def)

lemma ex_messages_built:
  "\<not> isl (evaluation_messages (ex_svc (ex_client 3) ex_kes) ex_question ''4'' ''addition'')"
  "\<not> isl (evaluation_messages ((ex_svc (ex_client 3) ex_kes)\<lparr>current_user_id := None\<rparr>)
            ex_question ''4'' ''addition'')"
  by code_simp+



theorem answer_record_fields_witness:
  "evaluate_answer (ex_svc (ex_client 3) ex_kes) ex_store ex_question ''4'' ''addition''
     = (Inr ''Score: 4/5. Good.'',
        ex_store\<lparr>answers := [ex_answer_record], calls := [Insert_answer ex_answer_record]\<rparr>)
   \<and> answers (ex_store\<lparr>answers := [ex_answer_record],
                 calls := [Insert_answer ex_answer_record]\<rparr>) \<noteq> answers ex_store
   \<and> question_id ex_answer_record = None \<and> grade ex_answer_record = None
   \<and> feedback ex_answer_record = None \<and> user_id ex_answer_record = Some ''user-1''
   \<and> model_answer ex_answer_record = ''Score: 4/5. Good.''"
proof -
  let ?svc = "ex_svc (ex_client 3) ex_kes"
  obtain msgs where msgs: "evaluation_messages ?svc ex_question ''4'' ''addition'' = Inr msgs"
    using ex_messages_built(1)
    by (cases "evaluation_messages ?svc ex_question ''4'' ''addition''") auto
  have run: "evaluate_answer ?svc ex_store ex_question ''4'' ''addition''
     = (Inr ''Score: 4/5. Good.'',
        ex_store\<lparr>answers := [ex_answer_record], calls := [Insert_answer ex_answer_record]\<rparr>)"
    by (simp add: evaluate_answer_def msgs ex_generates record_answer_def ex_connected
          ex_signed_in table_insert_answer_def ex_insert_returns logged_def ex_store_def
          ex_answer_record_def ex_user truthy_str_def)
  have changed: "answers (ex_store\<lparr>answers := [ex_answer_record],
                   calls := [Insert_answer ex_answer_record]\<rparr>) \<noteq> answers ex_store"
    by (simp add: ex_store_def)
  show ?thesis
    using answer_record_fields [OF run changed] run changed
    by (simp add: ex_answer_record_def)
qed

subsection \<open>Exceptions of the write paths\<close>

text \<open>
  C3. With a store connection whose \<^verbatim>\<open>table_insert\<close> raises,
  \<open>store_generated_question\<close>, reached through the controller's
  \<open>generate_question\<close>, raises to its caller: unlike \<open>store_user_query\<close>, it has no
  \<^verbatim>\<open>try\<close> of its own. The lemmas after it are the parts of the claim that hold:
  \<open>store_user_query\<close> never raises and returns null on any failure, and
  \<open>store_generated_question\<close> returns null and leaves the store alone when there is no
  connection.
\<close>

theorem store_generated_question_raises:
  "fst (generate_question ex_svc_insert_fails ex_store None None ''What is 7 x 8?'' ''coach-model'')
     = Inl StoreError"
  by (simp add: generate_question_def store_generated_question_def ex_svc_insert_fails_def
        ex_svc_def ex_repo_def table_insert_generated_question_def)

lemma store_generated_question_no_connection:
  "get_supabase (knowledge_repo svc) = Inr False
     \<Longrightarrow> store_generated_question svc s lid qid text author = (Inr None, s)"
  by (simp add: store_generated_question_def)

lemma store_user_query_never_raises:
  "\<exists>qid. fst (store_user_query svc uuid4_hex s uid text image_bytes_list content_types) = Inr qid"
  by (simp add: store_user_query_def split: prod.splits sum.splits)

lemma store_user_query_failure_is_none:
  "fst (store_user_query_body svc uuid4_hex s uid text image_bytes_list content_types) = Inl e
     \<Longrightarrow> fst (store_user_query svc uuid4_hex s uid text image_bytes_list content_types) = Inr None"
  by (auto simp: store_user_query_def split: prod.splits sum.splits)

lemma generate_practice_question_absorbs:
  "fst (generate_practice_question svc s tpc)
     = (case practice_prompt (find_relevant_or_empty svc tpc) tpc of
          Inl e \<Rightarrow> Inl e
        | Inr prompt \<Rightarrow>
            generate (model_handler svc) (text_message prompt) (Some 256) (Some (4 / 5)))"
  by (simp add: generate_practice_question_def split: sum.splits)

subsection \<open>Attachment linkage\<close>

lemma upload_attachment_ok:
  "upload_result repo path = Inr (Upload_att (Some aid))
     \<Longrightarrow> upload_attachment repo s uid bucket path b ct
           = (Inr (Upload_att (Some aid)),
              s\<lparr>attachments := attachments s @
                    [\<lparr> att_id = aid, owner_user_id = uid, storage_path = path, content_type = ct,
                       query_id = None, metadata = None \<rparr>],
                 calls := calls s @ [Upload_attachment uid bucket path b ct]\<rparr>)"
  by (simp add: upload_attachment_def logged_def)

lemma upload_loop_ok:
  assumes "\<forall>j < length bs. upload_result repo (attachment_path uuid4_hex (i + j))
                               = Inr (Upload_att (Some (aids ! j))) \<and> aids ! j \<noteq> []"
    and "length aids = length bs"
  shows "upload_loop cfg repo uuid4_hex uid content_types i bs ids s
           = (Inr (ids @ aids),
              s\<lparr>attachments := attachments s @ uploaded_rows uuid4_hex uid content_types i aids,
                 calls := calls s @ upload_calls cfg uuid4_hex uid content_types i bs\<rparr>)"
  using assms
proof (induction bs arbitrary: i ids s aids)
  case Nil
  then show ?case by simp
next
  case (Cons b bs)
  then obtain a as where aids: "aids = a # as" by (cases aids) auto
  have first: "upload_result repo (attachment_path uuid4_hex i) = Inr (Upload_att (Some a))"
    and a: "a \<noteq> []"
    using Cons.prems(1) aids by auto
  have rest: "\<forall>j < length bs. upload_result repo (attachment_path uuid4_hex (Suc i + j))
                                = Inr (Upload_att (Some (as ! j))) \<and> as ! j \<noteq> []"
  proof (intro allI impI)
    fix j assume "j < length bs"
    then have "Suc j < length (b # bs)" by simp
    then show "upload_result repo (attachment_path uuid4_hex (Suc i + j))
                 = Inr (Upload_att (Some (as ! j))) \<and> as ! j \<noteq> []"
      using Cons.prems(1) aids by fastforce
  qed
  have len: "length as = length bs" using Cons.prems(2) aids by simp
  show ?case
    by (simp add: aids upload_attachment_ok [OF first] append_id_def a
          Cons.IH [OF rest len] uploaded_row_def)
qed

lemma backfill_loop_attachments:
  "attachments (backfill_loop repo qid uid content_types idx aids s)
     = map (backfill_row repo qid uid content_types idx aids) (attachments s)"
proof (induction aids arbitrary: idx s)
  case Nil
  then show ?case by simp
next
  case (Cons aid aids)
  show ?case
    by (cases "update_error repo aid")
       (simp_all add: table_update_attachment_def logged_def Let_def Cons.IH)
qed

lemma backfill_loop_calls:
  "calls (backfill_loop repo qid uid content_types idx aids s)
     = calls s @ backfill_calls repo qid uid content_types idx aids"
proof (induction aids arbitrary: idx s)
  case Nil
  then show ?case by simp
next
  case (Cons aid aids)
  show ?case
    by (cases "update_error repo aid")
       (simp_all add: table_update_attachment_def logged_def Let_def Cons.IH)
qed

lemma backfill_row_id: "att_id (backfill_row repo qid uid content_types idx aids r) = att_id r"
  by (induction aids arbitrary: idx r) auto

lemma backfill_row_other:
  "att_id r \<notin> set aids \<Longrightarrow> backfill_row repo qid uid content_types idx aids r = r"
  by (induction aids arbitrary: idx) auto

lemma backfill_row_linked:
  assumes "distinct aids" and "k < length aids" and "att_id r = aids ! k"
    and "update_error repo (aids ! k) = None"
  shows "backfill_row repo qid uid content_types idx aids r
           = r\<lparr>query_id := Some qid,
               metadata := Some (backfill_metadata qid uid content_types (idx + k))\<rparr>"
  using assms
proof (induction aids arbitrary: idx k r)
  case Nil
  then show ?case by simp
next
  case (Cons aid aids)
  show ?case
  proof (cases k)
    case 0
    then show ?thesis
      using Cons.prems by (simp add: backfill_row_other)
  next
    case (Suc j)
    then have "att_id r \<noteq> aid" using Cons.prems by auto
    then show ?thesis
      using Cons.prems Suc Cons.IH [of j r "Suc idx"] by simp
  qed
qed

lemma uploaded_rows_ids: "map att_id (uploaded_rows uuid4_hex uid content_types i aids) = aids"
  by (induction aids arbitrary: i) (simp_all add: uploaded_row_def)

lemma uploaded_rows_unlinked:
  "r \<in> set (uploaded_rows uuid4_hex uid content_types i aids)
     \<Longrightarrow> query_id r = None \<and> metadata r = None"
  by (induction aids arbitrary: i) (auto simp: uploaded_row_def)

lemma backfill_row_unlinked:
  assumes "distinct aids" and "k < length aids" and "att_id r = aids ! k"
    and "update_error repo (aids ! k) = Some e"
  shows "backfill_row repo qid uid content_types idx aids r = r"
  using assms
proof (induction aids arbitrary: idx k r)
  case Nil
  then show ?case by simp
next
  case (Cons aid aids)
  show ?case
  proof (cases k)
    case 0
    then show ?thesis
      using Cons.prems by (simp add: backfill_row_other)
  next
    case (Suc j)
    then have "att_id r \<noteq> aid" using Cons.prems by auto
    then show ?thesis
      using Cons.prems Suc Cons.IH [of j r "Suc idx"] by simp
  qed
qed

lemma backfill_calls_logged:
  "k < length aids \<Longrightarrow> update_error repo (aids ! k) = Some e
     \<Longrightarrow> Log_update_failure (aids ! k) qid e
           \<in> set (backfill_calls repo qid uid content_types idx aids)"
proof (induction aids arbitrary: idx k)
  case Nil
  then show ?case by simp
next
  case (Cons aid aids)
  show ?case
  proof (cases k)
    case 0
    then show ?thesis using Cons.prems by simp
  next
    case (Suc j)
    then have "Log_update_failure (aids ! j) qid e
                 \<in> set (backfill_calls repo qid uid content_types (Suc idx) aids)"
      using Cons.prems Cons.IH [of j "Suc idx"] by simp
    then show ?thesis using Suc by simp
  qed
qed

lemma uploaded_rows_length [simp]:
  "length (uploaded_rows uuid4_hex uid content_types i aids) = length aids"
  by (induction aids arbitrary: i) simp_all

lemma uploaded_rows_nth:
  "k < length aids
     \<Longrightarrow> uploaded_rows uuid4_hex uid content_types i aids ! k
           = uploaded_row uuid4_hex uid content_types (i + k) (aids ! k)"
proof (induction aids arbitrary: i k)
  case Nil
  then show ?case by simp
next
  case (Cons aid aids)
  then show ?case by (cases k) simp_all
qed

lemma store_user_query_run:
  assumes run: "store_user_query svc uuid4_hex s uid text (Some imgs) content_types
                  = (Inr (Some qid), s')"
    and qid: "qid \<noteq> []"
    and up: "upload_loop (config svc) (knowledge_repo svc) uuid4_hex uid content_types 0 imgs [] s
               = (Inr aids, s1)"
  shows "\<exists>emb. first_embedding (embed_texts (knowledge_repo svc) [text]) = Inr emb
           \<and> attachments s' = attachments
                 (if aids \<noteq> []
                  then backfill_loop (knowledge_repo svc) qid uid content_types 0 aids
                         (s1\<lparr>calls := calls s1 @
                                 [Insert_user_query
                                    \<lparr> uq_id = None, uq_user_id = uid, text_query = text,
                                      image_attachment_ids = aids \<rparr>],
                              user_queries := user_queries s1 @
                                 [\<lparr> uq_id = Some qid, uq_user_id = uid, text_query = text,
                                    image_attachment_ids = aids \<rparr>]\<rparr>)
                  else s1)
           \<and> calls s' = calls s1 @
                 [Insert_user_query
                    \<lparr> uq_id = None, uq_user_id = uid, text_query = text,
                      image_attachment_ids = aids \<rparr>]
                 @ (if aids \<noteq> []
                    then backfill_calls (knowledge_repo svc) qid uid content_types 0 aids else [])
                 @ [Add_embedding ''user_queries'' qid emb]"
  using run qid
  by (auto simp: store_user_query_def store_user_query_body_def up Let_def
        table_insert_user_query_def add_embedding_for_source_def logged_def
        backfill_loop_calls
        split: sum.splits prod.splits if_splits insert_res.splits option.splits)

text \<open>
  C2, amended. For every call of \<open>store_user_query\<close> with \<open>N\<close> attachments that returns a
  non-null, non-empty query id, in which every upload returned a non-empty attachment id,
  the ids distinct: the call appended exactly \<open>N\<close> Attachment rows, the \<open>i\<close>-th of them
  with the id of the \<open>i\<close>-th upload; for each attachment whose back-fill update succeeded
  that row (and every row with its id) has \<open>query_id\<close> equal to the returned id and a
  metadata whose \<open>index\<close> is the attachment's original position \<open>i\<close>; for each attachment
  whose back-fill update raised, that row still has \<open>query_id\<close> and metadata null, and
  the failure was handed to the repository's log; the store saw the \<open>N\<close> uploads first,
  then the insert of the UserQuery, then the \<open>N\<close> back-fill updates (each failed one
  followed by its log call), then the embedding row; and the uploads created the rows
  with \<open>query_id\<close> and metadata null.
\<close>

theorem store_user_query_linkage:
  assumes run: "store_user_query svc uuid4_hex s uid text (Some imgs) content_types
                  = (Inr (Some qid), s')"
    and qid: "qid \<noteq> []"
    and uploads: "\<forall>i < length imgs.
                    upload_result (knowledge_repo svc) (attachment_path uuid4_hex i)
                      = Inr (Upload_att (Some (aids ! i))) \<and> aids ! i \<noteq> []"
    and len: "length aids = length imgs"
    and dist: "distinct aids"
  shows "length (attachments s') = length (attachments s) + length imgs
       \<and> (\<forall>i < length imgs.
            att_id (attachments s' ! (length (attachments s) + i)) = aids ! i
            \<and> (update_error (knowledge_repo svc) (aids ! i) = None \<longrightarrow>
                 query_id (attachments s' ! (length (attachments s) + i)) = Some qid
                 \<and> metadata (attachments s' ! (length (attachments s) + i))
                     = Some (backfill_metadata qid uid content_types i)
                 \<and> md_index (backfill_metadata qid uid content_types i) = i
                 \<and> (\<forall>r \<in> set (attachments s'). att_id r = aids ! i \<longrightarrow>
                        query_id r = Some qid
                        \<and> metadata r = Some (backfill_metadata qid uid content_types i)))
            \<and> (\<forall>e. update_error (knowledge_repo svc) (aids ! i) = Some e \<longrightarrow>
                 query_id (attachments s' ! (length (attachments s) + i)) = None
                 \<and> metadata (attachments s' ! (length (attachments s) + i)) = None
                 \<and> Log_update_failure (aids ! i) qid e \<in> set (calls s')))
       \<and> (\<exists>emb. calls s' = calls s
                 @ upload_calls (config svc) uuid4_hex uid content_types 0 imgs
                 @ [Insert_user_query
                      \<lparr> uq_id = None, uq_user_id = uid, text_query = text,
                        image_attachment_ids = aids \<rparr>]
                 @ backfill_calls (knowledge_repo svc) qid uid content_types 0 aids
                 @ [Add_embedding ''user_queries'' qid emb])
       \<and> attachments
             (snd (upload_loop (config svc) (knowledge_repo svc) uuid4_hex uid content_types 0
                     imgs [] s))
           = attachments s @ uploaded_rows uuid4_hex uid content_types 0 aids
       \<and> (\<forall>r \<in> set (uploaded_rows uuid4_hex uid content_types 0 aids).
             query_id r = None \<and> metadata r = None)"
proof -
  let ?repo = "knowledge_repo svc"
  let ?rows = "uploaded_rows uuid4_hex uid content_types 0 aids"
  let ?n = "length (attachments s)"
  let ?fill = "backfill_row ?repo qid uid content_types 0 aids"
  let ?s1 = "s\<lparr>attachments := attachments s @ ?rows,
                calls := calls s @ upload_calls (config svc) uuid4_hex uid content_types 0 imgs\<rparr>"
  have "\<forall>j < length imgs. upload_result ?repo (attachment_path uuid4_hex (0 + j))
                                 = Inr (Upload_att (Some (aids ! j))) \<and> aids ! j \<noteq> []"
    using uploads by simp
  then have up: "upload_loop (config svc) ?repo uuid4_hex uid content_types 0 imgs [] s
                   = (Inr aids, ?s1)"
    using upload_loop_ok [of imgs ?repo uuid4_hex 0 aids "config svc" uid content_types "[]" s] len
    by simp
  obtain emb where
    atts: "attachments s' = attachments
             (if aids \<noteq> []
              then backfill_loop ?repo qid uid content_types 0 aids
                     (?s1\<lparr>calls := calls ?s1 @
                             [Insert_user_query
                                \<lparr> uq_id = None, uq_user_id = uid, text_query = text,
                                  image_attachment_ids = aids \<rparr>],
                          user_queries := user_queries ?s1 @
                             [\<lparr> uq_id = Some qid, uq_user_id = uid, text_query = text,
                                image_attachment_ids = aids \<rparr>]\<rparr>)
              else ?s1)"
    and cs: "calls s' = calls ?s1 @
               [Insert_user_query
                  \<lparr> uq_id = None, uq_user_id = uid, text_query = text,
                    image_attachment_ids = aids \<rparr>]
               @ (if aids \<noteq> [] then backfill_calls ?repo qid uid content_types 0 aids else [])
               @ [Add_embedding ''user_queries'' qid emb]"
    using store_user_query_run [OF run qid up] by blast
  have s': "attachments s' = map ?fill (attachments s @ ?rows)"
  proof (cases "aids = []")
    case True
    have "map (backfill_row ?repo qid uid content_types 0 []) xs = xs" for xs
      by (induction xs) simp_all
    then show ?thesis using atts True by simp
  next
    case False
    then show ?thesis using atts by (simp add: backfill_loop_attachments)
  qed
  have order: "calls s' = calls s
                 @ upload_calls (config svc) uuid4_hex uid content_types 0 imgs
                 @ [Insert_user_query
                      \<lparr> uq_id = None, uq_user_id = uid, text_query = text,
                        image_attachment_ids = aids \<rparr>]
                 @ backfill_calls ?repo qid uid content_types 0 aids
                 @ [Add_embedding ''user_queries'' qid emb]"
    using cs by (cases "aids = []") auto
  have count: "length (attachments s') = ?n + length imgs"
    using s' len by simp
  have rows: "\<forall>i < length imgs.
            att_id (attachments s' ! (?n + i)) = aids ! i
            \<and> (update_error ?repo (aids ! i) = None \<longrightarrow>
                 query_id (attachments s' ! (?n + i)) = Some qid
                 \<and> metadata (attachments s' ! (?n + i))
                     = Some (backfill_metadata qid uid content_types i)
                 \<and> md_index (backfill_metadata qid uid content_types i) = i
                 \<and> (\<forall>r \<in> set (attachments s'). att_id r = aids ! i \<longrightarrow>
                        query_id r = Some qid
                        \<and> metadata r = Some (backfill_metadata qid uid content_types i)))
            \<and> (\<forall>e. update_error ?repo (aids ! i) = Some e \<longrightarrow>
                 query_id (attachments s' ! (?n + i)) = None
                 \<and> metadata (attachments s' ! (?n + i)) = None
                 \<and> Log_update_failure (aids ! i) qid e \<in> set (calls s'))"
  proof (intro allI impI)
    fix i assume i: "i < length imgs"
    then have k: "i < length aids" using len by simp
    let ?r0 = "uploaded_row uuid4_hex uid content_types i (aids ! i)"
    have at: "(attachments s @ ?rows) ! (?n + i) = ?r0"
      using k by (simp add: nth_append uploaded_rows_nth)
    have "?n + i < length (attachments s @ ?rows)"
      using k by simp
    then have "map ?fill (attachments s @ ?rows) ! (?n + i)
                 = ?fill ((attachments s @ ?rows) ! (?n + i))"
      by (rule nth_map)
    then have row: "attachments s' ! (?n + i) = ?fill ?r0"
      unfolding s' at .
    have r0: "att_id ?r0 = aids ! i" "query_id ?r0 = None" "metadata ?r0 = None"
      by (simp_all add: uploaded_row_def)
    have ident: "att_id (attachments s' ! (?n + i)) = aids ! i"
      using row r0(1) by (simp add: backfill_row_id)
    have linked: "query_id (attachments s' ! (?n + i)) = Some qid
                 \<and> metadata (attachments s' ! (?n + i))
                     = Some (backfill_metadata qid uid content_types i)
                 \<and> md_index (backfill_metadata qid uid content_types i) = i
                 \<and> (\<forall>r \<in> set (attachments s'). att_id r = aids ! i \<longrightarrow>
                        query_id r = Some qid
                        \<and> metadata r = Some (backfill_metadata qid uid content_types i))"
      if ok: "update_error ?repo (aids ! i) = None"
    proof -
      have each: "?fill r1 = r1\<lparr>query_id := Some qid,
                     metadata := Some (backfill_metadata qid uid content_types i)\<rparr>"
        if "att_id r1 = aids ! i" for r1
        using backfill_row_linked [OF dist k that ok, of qid uid content_types 0] by simp
      have here: "query_id (attachments s' ! (?n + i)) = Some qid"
        "metadata (attachments s' ! (?n + i)) = Some (backfill_metadata qid uid content_types i)"
        using row each [OF r0(1)] by simp_all
      have idx: "md_index (backfill_metadata qid uid content_types i) = i"
        by (simp add: backfill_metadata_def)
      have all: "\<forall>r \<in> set (attachments s'). att_id r = aids ! i \<longrightarrow>
                        query_id r = Some qid
                        \<and> metadata r = Some (backfill_metadata qid uid content_types i)"
      proof (intro ballI impI)
        fix r assume r: "r \<in> set (attachments s')" and rid: "att_id r = aids ! i"
        then obtain r1 where r1: "r = ?fill r1" using s' by auto
        then have "att_id r1 = aids ! i" using rid by (simp add: backfill_row_id)
        then have "r = r1\<lparr>query_id := Some qid,
                         metadata := Some (backfill_metadata qid uid content_types i)\<rparr>"
          using r1 each by simp
        then show "query_id r = Some qid
                     \<and> metadata r = Some (backfill_metadata qid uid content_types i)"
          by simp
      qed
      show ?thesis by (intro conjI here idx all)
    qed
    have failed: "query_id (attachments s' ! (?n + i)) = None
                 \<and> metadata (attachments s' ! (?n + i)) = None
                 \<and> Log_update_failure (aids ! i) qid e \<in> set (calls s')"
      if bad: "update_error ?repo (aids ! i) = Some e" for e
    proof -
      have "?fill ?r0 = ?r0"
        using backfill_row_unlinked [OF dist k r0(1) bad] by simp
      then have null: "query_id (attachments s' ! (?n + i)) = None"
        "metadata (attachments s' ! (?n + i)) = None"
        using row r0 by simp_all
      have "Log_update_failure (aids ! i) qid e
              \<in> set (backfill_calls ?repo qid uid content_types 0 aids)"
        using backfill_calls_logged [OF k bad] by simp
      then have log: "Log_update_failure (aids ! i) qid e \<in> set (calls s')"
        unfolding order by simp
      show ?thesis by (intro conjI null log)
    qed
    show "att_id (attachments s' ! (?n + i)) = aids ! i
            \<and> (update_error ?repo (aids ! i) = None \<longrightarrow>
                 query_id (attachments s' ! (?n + i)) = Some qid
                 \<and> metadata (attachments s' ! (?n + i))
                     = Some (backfill_metadata qid uid content_types i)
                 \<and> md_index (backfill_metadata qid uid content_types i) = i
                 \<and> (\<forall>r \<in> set (attachments s'). att_id r = aids ! i \<longrightarrow>
                        query_id r = Some qid
                        \<and> metadata r = Some (backfill_metadata qid uid content_types i)))
            \<and> (\<forall>e. update_error ?repo (aids ! i) = Some e \<longrightarrow>
                 query_id (attachments s' ! (?n + i)) = None
                 \<and> metadata (attachments s' ! (?n + i)) = None
                 \<and> Log_update_failure (aids ! i) qid e \<in> set (calls s'))"
      using ident linked failed by blast
  qed
  have order': "\<exists>emb. calls s' = calls s
                 @ upload_calls (config svc) uuid4_hex uid content_types 0 imgs
                 @ [Insert_user_query
                      \<lparr> uq_id = None, uq_user_id = uid, text_query = text,
                        image_attachment_ids = aids \<rparr>]
                 @ backfill_calls ?repo qid uid content_types 0 aids
                 @ [Add_embedding ''user_queries'' qid emb]"
    using order by blast
  have first: "attachments
             (snd (upload_loop (config svc) ?repo uuid4_hex uid content_types 0 imgs [] s))
           = attachments s @ ?rows"
    by (simp add: up)
  have unlinked: "\<forall>r \<in> set ?rows. query_id r = None \<and> metadata r = None"
    using uploaded_rows_unlinked by blast
  show ?thesis by (intro conjI count rows order' first unlinked)
qed

lemma ex_paths:
  "attachment_path ex_uuid 0 = ''attachments/0f0e_0.png''"
  "attachment_path ex_uuid (Suc 0) = ''attachments/a1b2_1.png''"
  by (simp_all add: attachment_path_def ex_uuid_def show_nat.simps digit_char_def)

lemma ex_second_uploads:
  "upload_result (knowledge_repo ex_svc_second_update_fails) path
     = Inr (Upload_att (Some (''att:'' @ path)))"
  by (simp add: ex_svc_second_update_fails_def ex_svc_def ex_repo_def)

lemma ex_second_updates:
  "update_error (knowledge_repo ex_svc_second_update_fails) (ex_aids ! 0) = None"
  "update_error (knowledge_repo ex_svc_second_update_fails) (ex_aids ! 1) = Some StoreError"
  by (simp_all add: ex_svc_second_update_fails_def ex_svc_def ex_repo_def ex_aids_def)

lemma ex_second_run:
  "fst (store_user_query ex_svc_second_update_fails ex_uuid ex_store ''user-1'' ex_question
          (Some ex_images) (Some ex_types))
     = Inr (Some ''q-1'')"
  by code_simp

theorem store_user_query_linkage_witness:
  "fst (store_user_query ex_svc_second_update_fails ex_uuid ex_store ''user-1'' ex_question
          (Some ex_images) (Some ex_types))
     = Inr (Some ''q-1'')
   \<and> length (attachments
         (snd (store_user_query ex_svc_second_update_fails ex_uuid ex_store ''user-1''
                 ex_question (Some ex_images) (Some ex_types)))) = 2
   \<and> att_id (attachments
         (snd (store_user_query ex_svc_second_update_fails ex_uuid ex_store ''user-1''
                 ex_question (Some ex_images) (Some ex_types))) ! 0) = ex_aids ! 0
   \<and> query_id (attachments
         (snd (store_user_query ex_svc_second_update_fails ex_uuid ex_store ''user-1''
                 ex_question (Some ex_images) (Some ex_types))) ! 0) = Some ''q-1''
   \<and> map_option md_index (metadata (attachments
         (snd (store_user_query ex_svc_second_update_fails ex_uuid ex_store ''user-1''
                 ex_question (Some ex_images) (Some ex_types))) ! 0)) = Some 0
   \<and> att_id (attachments
         (snd (store_user_query ex_svc_second_update_fails ex_uuid ex_store ''user-1''
                 ex_question (Some ex_images) (Some ex_types))) ! 1) = ex_aids ! 1
   \<and> query_id (attachments
         (snd (store_user_query ex_svc_second_update_fails ex_uuid ex_store ''user-1''
                 ex_question (Some ex_images) (Some ex_types))) ! 1) = None
   \<and> metadata (attachments
         (snd (store_user_query ex_svc_second_update_fails ex_uuid ex_store ''user-1''
                 ex_question (Some ex_images) (Some ex_types))) ! 1) = None
   \<and> Log_update_failure (ex_aids ! 1) ''q-1'' StoreError
       \<in> set (calls
         (snd (store_user_query ex_svc_second_update_fails ex_uuid ex_store ''user-1''
                 ex_question (Some ex_images) (Some ex_types))))"
proof -
  let ?svc = "ex_svc_second_update_fails"
  let ?run = "store_user_query ?svc ex_uuid ex_store ''user-1'' ex_question (Some ex_images)
                (Some ex_types)"
  have res: "fst ?run = Inr (Some ''q-1'')"
    by (rule ex_second_run)
  have run: "?run = (Inr (Some ''q-1''), snd ?run)"
    using res by (simp add: prod_eq_iff)
  have qid: "''q-1'' \<noteq> []" by simp
  have uploads: "\<forall>i < length ex_images.
                   upload_result (knowledge_repo ?svc) (attachment_path ex_uuid i)
                     = Inr (Upload_att (Some (ex_aids ! i))) \<and> ex_aids ! i \<noteq> []"
  proof (intro allI impI)
    fix i assume "i < length ex_images"
    then have "i = 0 \<or> i = Suc 0" by (auto simp: ex_images_def)
    then show "upload_result (knowledge_repo ?svc) (attachment_path ex_uuid i)
                 = Inr (Upload_att (Some (ex_aids ! i))) \<and> ex_aids ! i \<noteq> []"
      by (auto simp: ex_second_uploads ex_paths ex_aids_def)
  qed
  have len: "length ex_aids = length ex_images"
    by (simp add: ex_aids_def ex_images_def)
  have dist: "distinct ex_aids"
    by (simp add: ex_aids_def)
  have n: "length (attachments ex_store) = 0" "length ex_images = 2"
    by (simp_all add: ex_store_def ex_images_def)
  note inst = store_user_query_linkage [OF run qid uploads len dist]
  note count = inst [THEN conjunct1]
  note rows = inst [THEN conjunct2, THEN conjunct1, rule_format]
  have first: "0 < length ex_images" and second: "1 < length ex_images"
    by (simp_all add: ex_images_def)
  note row0 = rows [OF first]
  note row1 = rows [OF second]
  have c: "length (attachments (snd ?run)) = 2"
    using count by (simp add: n)
  have id0: "att_id (attachments (snd ?run) ! 0) = ex_aids ! 0"
    using row0 [THEN conjunct1] by (simp add: n)
  have id1: "att_id (attachments (snd ?run) ! 1) = ex_aids ! 1"
    using row1 [THEN conjunct1] by (simp add: n)
  have ok0: "query_id (attachments (snd ?run) ! 0) = Some ''q-1''"
    "map_option md_index (metadata (attachments (snd ?run) ! 0)) = Some 0"
    using row0 [THEN conjunct2, THEN conjunct1, rule_format, OF ex_second_updates(1)]
    by (simp_all add: n)
  have bad1: "query_id (attachments (snd ?run) ! 1) = None"
    "metadata (attachments (snd ?run) ! 1) = None"
    "Log_update_failure (ex_aids ! 1) ''q-1'' StoreError \<in> set (calls (snd ?run))"
    using row1 [THEN conjunct2, THEN conjunct2, rule_format, OF ex_second_updates(2)]
    by (simp_all add: n)
  show ?thesis
    by (intro conjI res c id0 ok0 id1 bad1)
qed

text \<open>
  C2, as stated, fails: when the store raises on the back-fill update, the exception is
  caught inside the loop and handed to the log, \<open>store_user_query\<close> still returns the
  query id, and the attachment row keeps \<open>query_id\<close> and metadata null.
\<close>

theorem store_user_query_update_fails_counterexample:
  "fst (store_user_query ex_svc_update_fails ex_uuid ex_store ''user-1'' ex_question
          (Some [''PNG1'']) (Some [''image/png'']))
     = Inr (Some ''q-1'')
   \<and> map att_id
         (attachments
            (snd (store_user_query ex_svc_update_fails ex_uuid ex_store ''user-1'' ex_question
                    (Some [''PNG1'']) (Some [''image/png'']))))
       = [''att:attachments/0f0e_0.png'']
   \<and> map query_id
         (attachments
            (snd (store_user_query ex_svc_update_fails ex_uuid ex_store ''user-1'' ex_question
                    (Some [''PNG1'']) (Some [''image/png'']))))
       = [None]
   \<and> map metadata
         (attachments
            (snd (store_user_query ex_svc_update_fails ex_uuid ex_store ''user-1'' ex_question
                    (Some [''PNG1'']) (Some [''image/png'']))))
       = [None]"
  by code_simp

text \<open>
  The back-fill numbers the attachments by their position among the ids that were
  collected, not among the images that were passed: when the first of two uploads returns
  nothing, the second image is linked with index 0 and with the first image's content
  type. The amended statement assumes that every upload returned an id.
\<close>

lemma store_user_query_index_shift_example:
  "fst (store_user_query ex_svc_first_upload_none ex_uuid ex_store ''user-1'' ex_question
          (Some ex_images) (Some ex_types))
     = Inr (Some ''q-1'')
   \<and> map (\<lambda>r. (storage_path r, content_type r, map_option md_index (metadata r),
                    map_option md_content_type (metadata r)))
         (attachments
            (snd (store_user_query ex_svc_first_upload_none ex_uuid ex_store ''user-1''
                    ex_question (Some ex_images) (Some ex_types))))
       = [(''attachments/a1b2_1.png'', ''image/jpeg'', Some 0, Some (Some ''image/png''))]"
  by code_simp

end
